theory Spec2Isabelle
  imports Complex_Main
begin

section \<open>Data model (types.ts)\<close>

text \<open>
  A JavaScript number that is stored or acquired (a coordinate, a radius, a rate) is a
  finite double; it is kept as the \<open>real\<close> it denotes. What the program computes from
  such numbers is computed in the arithmetic of the platform, which is modelled below.
  Instants are \<open>int\<close> milliseconds since the epoch. An ISO-8601 text written by
  \<open>toISOString\<close> and read back by \<open>new Date(text)\<close> denotes the same millisecond, so
  \<open>startTime\<close> and \<open>endTime\<close> hold that instant. \<open>durationInMinutes\<close> is an integer,
  as \<open>Math.round\<close> gives it. An optional field is an \<open>option\<close>. The field \<open>id\<close> is called \<open>sessionId\<close> and \<open>note\<close> is called
  \<open>noteText\<close>, since the short names are taken in HOL and Isar.
\<close>

record TimeSession =
  sessionId :: string
  startTime :: int
  endTime :: "int option"
  durationInMinutes :: "int option"
  noteText :: "string option"
  isOutOfBounds :: "bool option"
  location :: "(real \<times> real) option"

record HomeConfig =
  lat :: real
  lng :: real
  radiusMeters :: real

datatype ClockStatus = CLOCKED_OUT | CLOCKED_IN | IDLE

section \<open>Numbers and their decimal text\<close>

text \<open>
  \<open>Math.round\<close> rounds to the nearest integer, a tie going up. \<open>Math_atan2\<close> is the
  mathematical function that \<open>Math.atan2\<close> approximates, with \<open>atan2(0, 0) = 0\<close>.
\<close>

definition Math_round :: "real \<Rightarrow> int" where
  "Math_round x = \<lfloor>x + 1 / 2\<rfloor>"

definition Math_atan2 :: "real \<Rightarrow> real \<Rightarrow> real" where
  "Math_atan2 y x =
     (if 0 < x then arctan (y / x)
      else if x < 0 then (if 0 \<le> y then arctan (y / x) + pi else arctan (y / x) - pi)
      else if 0 < y then pi / 2
      else if y < 0 then - (pi / 2)
      else 0)"

text \<open>
  Double arithmetic (IEEE 754 binary64): the result of \<open>+\<close>, \<open>*\<close>, \<open>/\<close> and of reading a
  decimal literal is the exact result rounded to 53 significant bits, to the nearest
  double and to the even one at a tie. \<open>fl\<close> is that rounding. Results beyond the range
  of doubles (overflow to \<open>Infinity\<close>, subnormal results) are not modelled: \<open>fl\<close>
  rounds to 53 bits at every magnitude.
\<close>

definition pow2 :: "int \<Rightarrow> real" where
  "pow2 e = (if 0 \<le> e then 2 ^ nat e else 1 / 2 ^ nat (- e))"

definition roundEven :: "real \<Rightarrow> int" where
  "roundEven r =
     (let f = \<lfloor>r\<rfloor>; d = r - of_int f
      in if d < 1 / 2 then f else if 1 / 2 < d then f + 1 else if even f then f else f + 1)"

definition fl :: "real \<Rightarrow> real" where
  "fl x =
     (if x = 0 then 0
      else (let q = pow2 (\<lfloor>log 2 \<bar>x\<bar>\<rfloor> - 52) in of_int (roundEven (x / q)) * q))"

definition digit_char :: "nat \<Rightarrow> char" where
  "digit_char d = ''0123456789'' ! d"

definition digit_value :: "char \<Rightarrow> nat" where
  "digit_value c = of_char c - 48"

definition is_digit :: "char \<Rightarrow> bool" where
  "is_digit c = (48 \<le> (of_char c :: nat) \<and> (of_char c :: nat) \<le> 57)"

text \<open>The decimal digits of a natural number, without leading zeros.\<close>

fun digits :: "nat \<Rightarrow> string" where
  "digits n = (if n < 10 then [digit_char n] else digits (n div 10) @ [digit_char (n mod 10)])"

declare digits.simps [simp del]

definition digits_value :: "string \<Rightarrow> nat" where
  "digits_value cs = foldl (\<lambda>a c. 10 * a + digit_value c) 0 cs"

text \<open>
  \<open>x.toFixed(2)\<close> for a finite double \<open>x\<close>: the sign, then the integer \<open>n\<close> nearest to
  \<open>100 |x|\<close> (the larger one at a tie), written with at least three digits and a point
  before the last two. The digits before the point are those of \<open>n div 100\<close>, the two
  after it those of \<open>n mod 100\<close>. (From \<open>10^21\<close> on JavaScript switches to exponent
  notation; the text written here keeps all digits and denotes the same number.)
\<close>

definition toFixed2 :: "real \<Rightarrow> string" where
  "toFixed2 x =
     (let n = nat \<lfloor>\<bar>x\<bar> * 100 + 1 / 2\<rfloor>
      in (if x < 0 then ''-'' else '''') @ digits (n div 100) @ ''.'' @
         [digit_char (n mod 100 div 10), digit_char (n mod 10)])"

text \<open>
  \<open>parseFloat\<close> on a decimal literal without exponent: an optional sign, digits, an
  optional point and more digits; what follows is ignored. The result is the double
  nearest to the decimal. \<open>None\<close> is \<open>NaN\<close> (no digit where the number should start).
\<close>

definition parseFloat :: "string \<Rightarrow> real option" where
  "parseFloat s =
     (let neg = (s \<noteq> [] \<and> hd s = CHR ''-'');
          r = (if s \<noteq> [] \<and> (hd s = CHR ''-'' \<or> hd s = CHR ''+'') then tl s else s);
          ip = takeWhile is_digit r;
          rest = dropWhile is_digit r;
          fp = (if rest \<noteq> [] \<and> hd rest = CHR ''.'' then takeWhile is_digit (tl rest) else [])
      in if ip = [] \<and> fp = [] then None
         else Some (fl ((if neg then - 1 else 1) *
                    (real (digits_value ip) + real (digits_value fp) / 10 ^ length fp))))"

section \<open>Geofence distance (src/App.tsx, calculateDistance)\<close>

text \<open>
  The distance is computed in the arithmetic of the platform: doubles with \<open>NaN\<close> and
  the infinities, and the platform's own \<open>Math.sin\<close>, \<open>Math.cos\<close>, \<open>Math.sqrt\<close> and
  \<open>Math.atan2\<close>, whose last bits the language leaves to the implementation. That
  arithmetic is a parameter \<open>J\<close> of the model: \<open>'n\<close> is the type of its numbers,
  \<open>js_num J x\<close> the number with the finite value \<open>x\<close> (a stored field, a literal),
  \<open>js_gt\<close> the comparison \<open>>\<close>, \<open>js_round\<close> is \<open>Math.round\<close> and \<open>js_toString\<close> the
  text of a number in a template literal. What is proved for every \<open>J\<close> holds for the
  arithmetic of any platform.
\<close>

record 'n arith =
  js_num :: "real \<Rightarrow> 'n"
  js_PI :: 'n
  js_add :: "'n \<Rightarrow> 'n \<Rightarrow> 'n"
  js_sub :: "'n \<Rightarrow> 'n \<Rightarrow> 'n"
  js_mul :: "'n \<Rightarrow> 'n \<Rightarrow> 'n"
  js_div :: "'n \<Rightarrow> 'n \<Rightarrow> 'n"
  js_sin :: "'n \<Rightarrow> 'n"
  js_cos :: "'n \<Rightarrow> 'n"
  js_sqrt :: "'n \<Rightarrow> 'n"
  js_atan2 :: "'n \<Rightarrow> 'n \<Rightarrow> 'n"
  js_gt :: "'n \<Rightarrow> 'n \<Rightarrow> bool"
  js_round :: "'n \<Rightarrow> 'n"
  js_toString :: "'n \<Rightarrow> string"

definition calculateDistance :: "'n arith \<Rightarrow> 'n \<Rightarrow> 'n \<Rightarrow> 'n \<Rightarrow> 'n \<Rightarrow> 'n" where
  "calculateDistance J lat1 lon1 lat2 lon2 =
     (let R = js_num J 6371000;
          \<phi>1 = js_div J (js_mul J lat1 (js_PI J)) (js_num J 180);
          \<phi>2 = js_div J (js_mul J lat2 (js_PI J)) (js_num J 180);
          \<Delta>\<phi> = js_div J (js_mul J (js_sub J lat2 lat1) (js_PI J)) (js_num J 180);
          \<Delta>lon = js_div J (js_mul J (js_sub J lon2 lon1) (js_PI J)) (js_num J 180);
          a = js_add J
                (js_mul J (js_sin J (js_div J \<Delta>\<phi> (js_num J 2)))
                          (js_sin J (js_div J \<Delta>\<phi> (js_num J 2))))
                (js_mul J
                   (js_mul J (js_mul J (js_cos J \<phi>1) (js_cos J \<phi>2))
                             (js_sin J (js_div J \<Delta>lon (js_num J 2))))
                   (js_sin J (js_div J \<Delta>lon (js_num J 2))))
      in js_mul J R
           (js_mul J (js_num J 2)
              (js_atan2 J (js_sqrt J a) (js_sqrt J (js_sub J (js_num J 1) a)))))"

text \<open>
  Exact arithmetic, as one instance of the parameter: the numbers are the reals and
  \<open>None\<close> for a result that is not a real number, every operation gives its
  mathematical result, and a quotient by 0 and the square root of a negative number are
  \<open>None\<close>. The text of a number is the text of its integer part (it is only asked of
  rounded numbers).
\<close>

definition showInt :: "int \<Rightarrow> string" where
  "showInt i = (if i < 0 then ''-'' else []) @ digits (nat \<bar>i\<bar>)"

definition lift2 :: "(real \<Rightarrow> real \<Rightarrow> real) \<Rightarrow> real option \<Rightarrow> real option \<Rightarrow> real option" where
  "lift2 f x y = (case x of None \<Rightarrow> None | Some a \<Rightarrow> (case y of None \<Rightarrow> None | Some b \<Rightarrow> Some (f a b)))"

definition exactJS :: "real option arith" where
  "exactJS =
     \<lparr>js_num = Some,
      js_PI = Some pi,
      js_add = lift2 (\<lambda>a b. a + b),
      js_sub = lift2 (\<lambda>a b. a - b),
      js_mul = lift2 (\<lambda>a b. a * b),
      js_div = (\<lambda>x y. case x of None \<Rightarrow> None
                          | Some a \<Rightarrow> (case y of None \<Rightarrow> None
                                      | Some b \<Rightarrow> if b = 0 then None else Some (a / b))),
      js_sin = map_option sin,
      js_cos = map_option cos,
      js_sqrt = (\<lambda>x. case x of None \<Rightarrow> None | Some a \<Rightarrow> if a < 0 then None else Some (sqrt a)),
      js_atan2 = lift2 Math_atan2,
      js_gt = (\<lambda>x y. case x of None \<Rightarrow> False
                          | Some a \<Rightarrow> (case y of None \<Rightarrow> False | Some b \<Rightarrow> b < a)),
      js_round = map_option (\<lambda>a. of_int (Math_round a)),
      js_toString = (\<lambda>x. case x of None \<Rightarrow> ''NaN'' | Some a \<Rightarrow> showInt \<lfloor>a\<rfloor>)\<rparr>"

section \<open>Dates (the platform's \<open>Date\<close>, proleptic Gregorian calendar)\<close>

text \<open>
  \<open>getDate\<close> and \<open>setDate\<close> work on local time; the zone is a fixed offset
  \<open>tza\<close> in milliseconds (no daylight saving). The day arithmetic follows the
  language standard: \<open>Day\<close>, \<open>TimeWithinDay\<close>, \<open>DayFromYear\<close>,
  \<open>YearFromTime\<close>, \<open>MonthFromTime\<close>, \<open>DateFromTime\<close>, \<open>MakeDay\<close>,
  \<open>MakeDate\<close>. \<open>YearFromTime\<close> is the largest year whose first day is not after
  the instant: it is found from an estimate by the mean year length, moved by one year
  where the estimate is off.
\<close>

definition msPerDay :: int where
  "msPerDay = 86400000"

definition Day :: "int \<Rightarrow> int" where
  "Day t = t div msPerDay"

definition TimeWithinDay :: "int \<Rightarrow> int" where
  "TimeWithinDay t = t mod msPerDay"

definition DayFromYear :: "int \<Rightarrow> int" where
  "DayFromYear y =
     365 * (y - 1970) + (y - 1969) div 4 - (y - 1901) div 100 + (y - 1601) div 400"

definition DaysInYear :: "int \<Rightarrow> int" where
  "DaysInYear y =
     (if y mod 4 \<noteq> 0 then 365 else if y mod 100 \<noteq> 0 then 366
      else if y mod 400 \<noteq> 0 then 365 else 366)"

definition YearFromTime :: "int \<Rightarrow> int" where
  "YearFromTime t =
     (let d = Day t; y = 1970 + (400 * d) div 146097
      in if d < DayFromYear y then y - 1
         else if DayFromYear (y + 1) \<le> d then y + 1
         else y)"

definition InLeapYear :: "int \<Rightarrow> int" where
  "InLeapYear t = (if DaysInYear (YearFromTime t) = 366 then 1 else 0)"

definition DayWithinYear :: "int \<Rightarrow> int" where
  "DayWithinYear t = Day t - DayFromYear (YearFromTime t)"

text \<open>The day within the year on which month \<open>m\<close> (0 to 11) starts.\<close>

definition monthStart :: "int \<Rightarrow> int \<Rightarrow> int" where
  "monthStart leap m =
     (if m = 0 then 0 else if m = 1 then 31
      else [59, 90, 120, 151, 181, 212, 243, 273, 304, 334] ! nat (m - 2) + leap)"

definition MonthFromTime :: "int \<Rightarrow> int" where
  "MonthFromTime t =
     (let d = DayWithinYear t; l = InLeapYear t
      in if d < 31 then 0 else if d < 59 + l then 1 else if d < 90 + l then 2
         else if d < 120 + l then 3 else if d < 151 + l then 4 else if d < 181 + l then 5
         else if d < 212 + l then 6 else if d < 243 + l then 7 else if d < 273 + l then 8
         else if d < 304 + l then 9 else if d < 334 + l then 10 else 11)"

definition DateFromTime :: "int \<Rightarrow> int" where
  "DateFromTime t = DayWithinYear t - monthStart (InLeapYear t) (MonthFromTime t) + 1"

text \<open>\<open>MakeDay\<close> for a month between 0 and 11, which is all \<open>setDate\<close> passes.\<close>

definition MakeDay :: "int \<Rightarrow> int \<Rightarrow> int \<Rightarrow> int" where
  "MakeDay year month date =
     DayFromYear year + monthStart (if DaysInYear year = 366 then 1 else 0) month + date - 1"

definition MakeDate :: "int \<Rightarrow> int \<Rightarrow> int" where
  "MakeDate day time = day * msPerDay + time"

definition getDate :: "int \<Rightarrow> int \<Rightarrow> int" where
  "getDate tza t = DateFromTime (t + tza)"

definition setDate :: "int \<Rightarrow> int \<Rightarrow> int \<Rightarrow> int" where
  "setDate tza t dt =
     (let lt = t + tza
      in MakeDate (MakeDay (YearFromTime lt) (MonthFromTime lt) dt) (TimeWithinDay lt) - tza)"

section \<open>Pay period filter and totals (both App files, filteredSessions, totalHours, totalPay)\<close>

text \<open>
  The three \<open>new Date()\<close> of the source are three readings of the clock: \<open>now\<close>,
  \<open>now1\<close> (which \<open>startOfPeriod\<close> starts from) and \<open>now2\<close> (which
  \<open>endOfPeriod\<close> starts from).
\<close>

definition filteredSessions ::
  "int \<Rightarrow> int \<Rightarrow> int \<Rightarrow> int \<Rightarrow> TimeSession list \<Rightarrow> int \<Rightarrow> TimeSession list" where
  "filteredSessions tza now now1 now2 sessions periodOffset =
     (let cycleDays = 14;
          startOfPeriod = setDate tza now1 (getDate tza now - cycleDays * (periodOffset + 1));
          endOfPeriod = setDate tza now2 (getDate tza startOfPeriod + cycleDays)
      in filter (\<lambda>s. startOfPeriod \<le> startTime s \<and> startTime s \<le> endOfPeriod) sessions)"

text \<open>
  The window in the words of the specification: it starts \<open>14 (offset + 1)\<close> days
  before now and ends 14 days after its start, both bounds included.
\<close>

definition period_window_spec :: "int \<Rightarrow> int \<Rightarrow> int \<times> int" where
  "period_window_spec now periodOffset =
     (let window_start = now - 14 * (periodOffset + 1) * msPerDay
      in (window_start, window_start + 14 * msPerDay))"

definition filteredSessions_spec :: "int \<Rightarrow> TimeSession list \<Rightarrow> int \<Rightarrow> TimeSession list" where
  "filteredSessions_spec now sessions periodOffset =
     filter (\<lambda>s. fst (period_window_spec now periodOffset) \<le> startTime s \<and>
                 startTime s \<le> snd (period_window_spec now periodOffset)) sessions"

text \<open>\<open>s.durationInMinutes || 0\<close>: a missing duration counts as 0.\<close>

definition minutesOrZero :: "TimeSession \<Rightarrow> int" where
  "minutesOrZero s = (case durationInMinutes s of None \<Rightarrow> 0 | Some d \<Rightarrow> d)"

text \<open>
  The sum, the quotient by 60 and the product with the rate are double operations, each
  rounded by \<open>fl\<close>.
\<close>

definition totalHours :: "TimeSession list \<Rightarrow> string" where
  "totalHours filtered =
     toFixed2 (fl (foldl (\<lambda>acc s. fl (acc + real_of_int (minutesOrZero s))) 0 filtered / 60))"

definition totalPay :: "string \<Rightarrow> real \<Rightarrow> string" where
  "totalPay hours hourlyRate =
     (case parseFloat hours of None \<Rightarrow> ''NaN'' | Some h \<Rightarrow> toFixed2 (fl (h * hourlyRate)))"

section \<open>Application state and browser storage\<close>

text \<open>
  The \<open>useState\<close> cells that the clock handlers read or write. \<open>error\<close> is the
  text shown to the user, \<open>None\<close> for \<open>null\<close>. The file with the sync key
  (part_001) has one more cell, \<open>syncKey\<close>.
\<close>

record AppState =
  sessions :: "TimeSession list"
  activeSession :: "TimeSession option"
  status :: ClockStatus
  error :: "string option"
  homeConfig :: HomeConfig

record SyncState = AppState +
  syncKey :: string

text \<open>
  \<open>localStorage\<close> maps a key to a text. A text is kept as what it denotes: the
  \<open>JSON.stringify\<close> of a session list, of one session or of a home configuration; a text
  that \<open>JSON.parse\<close> reads as a falsy value (\<open>null\<close>, \<open>false\<close>, \<open>0\<close>, the empty string),
  which is \<open>FalsyJSON\<close>; or a text given by its characters (\<open>PlainText\<close>), as the sync
  key is. The program itself writes a list under the list keys, a session under the
  active keys, a configuration under \<open>home_config\<close> and its characters under
  \<open>nanny_sync_key\<close>.

  Reading an item follows the source: \<open>getItem\<close>, the test of the text for truthiness
  (no item and the empty text are falsy, every other text is truthy) and \<open>JSON.parse\<close>.
  A read gives \<open>None\<close> where the program leaves what the state below can hold: the
  text does not parse, so that the load throws, or it parses to a value that the type of
  the cell does not have. For the list and the home configuration this includes the
  falsy values (with such a list the next render throws); for the active session a
  falsy value is the empty slot. A text given by its characters is not parsed here: under
  a key whose text the program parses, only the empty one is read, and any other gives
  \<open>None\<close>. Under \<open>nanny_sync_key\<close> the text itself is the key, so there only a text
  given by its characters is read.
\<close>

datatype stored =
    SessionsJSON "TimeSession list"
  | SessionJSON TimeSession
  | ConfigJSON HomeConfig
  | FalsyJSON
  | PlainText string

type_synonym storage = "string \<rightharpoonup> stored"

definition defaultHomeConfig :: HomeConfig where
  "defaultHomeConfig = \<lparr>lat = 0, lng = 0, radiusMeters = 200\<rparr>"

definition loadHomeConfig :: "storage \<Rightarrow> HomeConfig option" where
  "loadHomeConfig st =
     (case st ''home_config'' of
        None \<Rightarrow> Some defaultHomeConfig
      | Some (ConfigJSON h) \<Rightarrow> Some h
      | Some (PlainText k) \<Rightarrow> if k = [] then Some defaultHomeConfig else None
      | Some other \<Rightarrow> None)"

definition newSess :: "string \<Rightarrow> int \<Rightarrow> (real \<times> real) option \<Rightarrow> TimeSession" where
  "newSess uuid now userLoc =
     \<lparr>sessionId = uuid, startTime = now, endTime = None, durationInMinutes = None,
      noteText = None, isOutOfBounds = Some False, location = userLoc\<rparr>"

definition mismatchMessage :: "'n arith \<Rightarrow> 'n \<Rightarrow> string" where
  "mismatchMessage J d =
     ''Location mismatch: You are '' @ js_toString J (js_round J d) @ ''m away from home.''"

section \<open>Clock handlers of src/App.tsx\<close>

text \<open>
  \<open>handleClockIn J pos now uuid\<close>: \<open>J\<close> is the arithmetic of the platform, \<open>pos\<close> is
  what the location request gave (\<open>None\<close> when it was refused or timed out), \<open>now\<close> the
  clock reading and \<open>uuid\<close> the result of \<open>crypto.randomUUID()\<close>.
\<close>

definition handleClockIn ::
  "'n arith \<Rightarrow> (real \<times> real) option \<Rightarrow> int \<Rightarrow> string \<Rightarrow> AppState \<Rightarrow> AppState" where
  "handleClockIn J pos now uuid s =
     (let s0 = s\<lparr>error := None\<rparr>
      in case pos of
           None \<Rightarrow> s0\<lparr>error := Some ''Please enable location services to clock in.''\<rparr>
         | Some userLoc \<Rightarrow>
             if lat (homeConfig s) \<noteq> 0 then
               (let dist = calculateDistance J (js_num J (fst userLoc)) (js_num J (snd userLoc))
                             (js_num J (lat (homeConfig s))) (js_num J (lng (homeConfig s)))
                in if js_gt J dist (js_num J (radiusMeters (homeConfig s)))
                   then s0\<lparr>error := Some (mismatchMessage J dist)\<rparr>
                   else s0\<lparr>activeSession := Some (newSess uuid now (Some userLoc)),
                           status := CLOCKED_IN\<rparr>)
             else s0\<lparr>activeSession := Some (newSess uuid now (Some userLoc)),
                     status := CLOCKED_IN\<rparr>)"

text \<open>
  \<open>handleClockOut now\<close>: the difference of the two clock readings and its quotient by
  60000 are doubles, each rounded by \<open>fl\<close>; \<open>Math.round\<close> takes the quotient to an
  integer.
\<close>

definition handleClockOut :: "int \<Rightarrow> AppState \<Rightarrow> AppState" where
  "handleClockOut now s =
     (case activeSession s of
        None \<Rightarrow> s
      | Some a \<Rightarrow>
          (let durationMins = Math_round (fl (fl (real_of_int (now - startTime a)) / 60000));
               completed = a\<lparr>endTime := Some now, durationInMinutes := Some durationMins\<rparr>
           in s\<lparr>sessions := completed # sessions s, activeSession := None,
                 status := CLOCKED_OUT\<rparr>))"

text \<open>
  The three effects of src/App.tsx. The first runs once after mounting and loads what
  is stored; the second stores the list and the home configuration whenever one of
  them changed; the third stores or removes the active session whenever it changed.
\<close>

definition loadEffect :: "storage \<Rightarrow> AppState \<Rightarrow> AppState option" where
  "loadEffect st s =
     (case (case st ''nanny_sessions'' of
              None \<Rightarrow> Some s
            | Some (SessionsJSON saved) \<Rightarrow> Some (s\<lparr>sessions := saved\<rparr>)
            | Some (PlainText k) \<Rightarrow> if k = [] then Some s else None
            | Some other \<Rightarrow> None) of
        None \<Rightarrow> None
      | Some s1 \<Rightarrow>
          (case st ''nanny_active_session'' of
             None \<Rightarrow> Some s1
           | Some (SessionJSON active) \<Rightarrow>
               Some (s1\<lparr>activeSession := Some active, status := CLOCKED_IN\<rparr>)
           | Some FalsyJSON \<Rightarrow> Some (s1\<lparr>activeSession := None, status := CLOCKED_IN\<rparr>)
           | Some (PlainText k) \<Rightarrow> if k = [] then Some s1 else None
           | Some other \<Rightarrow> None))"

definition persistSessions :: "AppState \<Rightarrow> storage \<Rightarrow> storage" where
  "persistSessions s st =
     st(''nanny_sessions'' \<mapsto> SessionsJSON (sessions s),
        ''home_config'' \<mapsto> ConfigJSON (homeConfig s))"

definition persistActive :: "AppState \<Rightarrow> storage \<Rightarrow> storage" where
  "persistActive s st =
     (case activeSession s of
        Some a \<Rightarrow> st(''nanny_active_session'' \<mapsto> SessionJSON a)
      | None \<Rightarrow> st(''nanny_active_session'' := None))"

text \<open>The effects that run after a render, given the state of the render before.\<close>

definition runEffects :: "AppState \<Rightarrow> AppState \<Rightarrow> storage \<Rightarrow> storage" where
  "runEffects old new st =
     (let st1 = (if sessions new \<noteq> sessions old \<or> homeConfig new \<noteq> homeConfig old
                 then persistSessions new st else st)
      in if activeSession new \<noteq> activeSession old then persistActive new st1 else st1)"

definition initialState :: "HomeConfig \<Rightarrow> AppState" where
  "initialState h =
     \<lparr>sessions = [], activeSession = None, status = CLOCKED_OUT, error = None,
      homeConfig = h\<rparr>"

text \<open>
  Mounting the component on a store: the first render has the initial state, with the
  home configuration that is stored; all three effects run in order (the load reads
  before the other two write), and the render that follows the load runs the effects
  whose cells changed.
\<close>

definition mount :: "storage \<Rightarrow> (AppState \<times> storage) option" where
  "mount st =
     (case loadHomeConfig st of
        None \<Rightarrow> None
      | Some h \<Rightarrow>
          (let s0 = initialState h
           in case loadEffect st s0 of
                None \<Rightarrow> None
              | Some s1 \<Rightarrow>
                  Some (s1, runEffects s0 s1 (persistActive s0 (persistSessions s0 st)))))"

datatype event =
    ClockIn "(real \<times> real) option" int string
  | ClockOut int
  | Reload

fun step :: "'n arith \<Rightarrow> event \<Rightarrow> AppState \<times> storage \<Rightarrow> (AppState \<times> storage) option" where
  "step J (ClockIn pos now uuid) (s, st) =
     (let s' = handleClockIn J pos now uuid s in Some (s', runEffects s s' st))"
| "step J (ClockOut now) (s, st) =
     (let s' = handleClockOut now s in Some (s', runEffects s s' st))"
| "step J Reload (s, st) = mount st"

text \<open>A run: mounting on a store, then the events in order, as long as the loads succeed.\<close>

definition run :: "'n arith \<Rightarrow> event list \<Rightarrow> storage \<Rightarrow> (AppState \<times> storage) option" where
  "run J evs st = foldl (\<lambda>w e. Option.bind w (step J e)) (mount st) evs"

section \<open>Clock handlers and storage of the file with the sync key (part_001)\<close>

definition sessionsKey :: "string \<Rightarrow> string" where
  "sessionsKey key = ''nanny_sessions_'' @ key"

definition activeKey :: "string \<Rightarrow> string" where
  "activeKey key = ''nanny_active_'' @ key"

definition saveToCloud ::
  "string \<Rightarrow> TimeSession list \<Rightarrow> TimeSession option \<Rightarrow> storage \<Rightarrow> storage" where
  "saveToCloud key data active st =
     (let st1 = st(sessionsKey key \<mapsto> SessionsJSON data)
      in case active of
           Some a \<Rightarrow> st1(activeKey key \<mapsto> SessionJSON a)
         | None \<Rightarrow> st1(activeKey key := None))"

text \<open>The effect that depends on \<open>syncKey\<close>: it runs after mounting and after the key changed.\<close>

definition loadSync :: "storage \<Rightarrow> SyncState \<Rightarrow> SyncState option" where
  "loadSync st s =
     (case (case st (sessionsKey (syncKey s)) of
              None \<Rightarrow> Some s
            | Some (SessionsJSON saved) \<Rightarrow> Some (s\<lparr>sessions := saved\<rparr>)
            | Some (PlainText k) \<Rightarrow> if k = [] then Some s else None
            | Some other \<Rightarrow> None) of
        None \<Rightarrow> None
      | Some s1 \<Rightarrow>
          (case st (activeKey (syncKey s)) of
             None \<Rightarrow> Some s1
           | Some (SessionJSON active) \<Rightarrow>
               Some (s1\<lparr>activeSession := Some active, status := CLOCKED_IN\<rparr>)
           | Some FalsyJSON \<Rightarrow> Some (s1\<lparr>activeSession := None, status := CLOCKED_IN\<rparr>)
           | Some (PlainText k) \<Rightarrow> if k = [] then Some s1 else None
           | Some other \<Rightarrow> None))"

definition initialSyncKey :: "storage \<Rightarrow> string option" where
  "initialSyncKey st =
     (case st ''nanny_sync_key'' of
        None \<Rightarrow> Some ''our-nanny-2024''
      | Some (PlainText k) \<Rightarrow> Some (if k = [] then ''our-nanny-2024'' else k)
      | Some other \<Rightarrow> None)"

definition initialSyncState :: "HomeConfig \<Rightarrow> string \<Rightarrow> SyncState" where
  "initialSyncState h key =
     \<lparr>sessions = [], activeSession = None, status = CLOCKED_OUT, error = None,
      homeConfig = h, syncKey = key\<rparr>"

definition mountSync :: "storage \<Rightarrow> (SyncState \<times> storage) option" where
  "mountSync st =
     (case initialSyncKey st of
        None \<Rightarrow> None
      | Some key \<Rightarrow>
          (case loadHomeConfig st of
             None \<Rightarrow> None
           | Some h \<Rightarrow>
               (case loadSync st (initialSyncState h key) of
                  None \<Rightarrow> None
                | Some s \<Rightarrow> Some (s, st))))"

definition handleClockIn_sync ::
  "(real \<times> real) option \<Rightarrow> int \<Rightarrow> string \<Rightarrow> SyncState \<times> storage \<Rightarrow> SyncState \<times> storage" where
  "handleClockIn_sync pos now uuid w =
     (let s = fst w; st = snd w; s0 = s\<lparr>error := None\<rparr>
      in case pos of
           None \<Rightarrow> (s0\<lparr>error := Some ''Location is required to clock in.''\<rparr>, st)
         | Some userLoc \<Rightarrow>
             (let n = newSess uuid now (Some userLoc)
              in (s0\<lparr>activeSession := Some n, status := CLOCKED_IN\<rparr>,
                  saveToCloud (syncKey s) (n # sessions s) (Some n) st)))"

definition handleClockOut_sync :: "int \<Rightarrow> SyncState \<times> storage \<Rightarrow> SyncState \<times> storage" where
  "handleClockOut_sync now w =
     (let s = fst w; st = snd w
      in case activeSession s of
           None \<Rightarrow> (s, st)
         | Some a \<Rightarrow>
             (let durationMins = Math_round (fl (fl (real_of_int (now - startTime a)) / 60000));
                  completed = a\<lparr>endTime := Some now, durationInMinutes := Some durationMins\<rparr>;
                  updated = completed # sessions s
              in (s\<lparr>sessions := updated, activeSession := None, status := CLOCKED_OUT\<rparr>,
                  saveToCloud (syncKey s) updated None st)))"

text \<open>
  The "Change Key" button: \<open>answer\<close> is what the prompt returned (\<open>None\<close> when it
  was dismissed). A new key is stored, and the load effect runs when the key changed.
\<close>

definition changeKey ::
  "string option \<Rightarrow> SyncState \<times> storage \<Rightarrow> (SyncState \<times> storage) option" where
  "changeKey answer w =
     (let s = fst w; st = snd w
      in case answer of
           None \<Rightarrow> Some (s, st)
         | Some newKey \<Rightarrow>
             if newKey = [] then Some (s, st)
             else (let st' = st(''nanny_sync_key'' \<mapsto> PlainText newKey);
                       s' = s\<lparr>syncKey := newKey\<rparr>
                   in if newKey \<noteq> syncKey s
                      then (case loadSync st' s' of None \<Rightarrow> None | Some s'' \<Rightarrow> Some (s'', st'))
                      else Some (s', st')))"

datatype sync_event =
    SyncClockIn "(real \<times> real) option" int string
  | SyncClockOut int
  | ChangeKey "string option"
  | SyncReload

fun stepSync :: "sync_event \<Rightarrow> SyncState \<times> storage \<Rightarrow> (SyncState \<times> storage) option" where
  "stepSync (SyncClockIn pos now uuid) w = Some (handleClockIn_sync pos now uuid w)"
| "stepSync (SyncClockOut now) w = Some (handleClockOut_sync now w)"
| "stepSync (ChangeKey answer) w = changeKey answer w"
| "stepSync SyncReload w = mountSync (snd w)"

definition runSync :: "sync_event list \<Rightarrow> storage \<Rightarrow> (SyncState \<times> storage) option" where
  "runSync evs st = foldl (\<lambda>w e. Option.bind w (stepSync e)) (mountSync st) evs"

section \<open>Auxiliary notions for the statements\<close>

text \<open>The term under the square roots of the distance, in exact arithmetic.\<close>

definition haversine_a :: "real \<Rightarrow> real \<Rightarrow> real \<Rightarrow> real \<Rightarrow> real" where
  "haversine_a lat1 lon1 lat2 lon2 =
     sin ((lat2 - lat1) * pi / 180 / 2) * sin ((lat2 - lat1) * pi / 180 / 2) +
     cos (lat1 * pi / 180) * cos (lat2 * pi / 180) *
     sin ((lon2 - lon1) * pi / 180 / 2) * sin ((lon2 - lon1) * pi / 180 / 2)"


text \<open>
  The number that the text \<open>x.toFixed(2)\<close> denotes: \<open>x\<close> rounded to hundredths, a
  tie going away from zero.
\<close>

definition fixed2 :: "real \<Rightarrow> real" where
  "fixed2 x = (if x < 0 then - 1 else 1) * (real (nat \<lfloor>\<bar>x\<bar> * 100 + 1 / 2\<rfloor>) / 100)"

text \<open>A session is completed when it has both an end time and a duration.\<close>

definition completed :: "TimeSession \<Rightarrow> bool" where
  "completed x = (endTime x \<noteq> None \<and> durationInMinutes x \<noteq> None)"

text \<open>The status agrees with the active-session slot.\<close>

definition statusMatches :: "'a AppState_scheme \<Rightarrow> bool" where
  "statusMatches s = (status s = (if activeSession s = None then CLOCKED_OUT else CLOCKED_IN))"

text \<open>The list saved by src/App.tsx, if there is one, holds completed sessions only.\<close>

definition storedListCompleted :: "storage \<Rightarrow> bool" where
  "storedListCompleted st =
     (case st ''nanny_sessions'' of
        Some (SessionsJSON saved) \<Rightarrow> list_all completed saved
      | _ \<Rightarrow> True)"


text \<open>
  A store as src/App.tsx itself leaves it: the item of the active session, if there is
  one, is a session; the saved list, if there is one, is a list; the home
  configuration, if there is one, is a configuration.
\<close>

definition storeWritten :: "storage \<Rightarrow> bool" where
  "storeWritten st =
     ((case st ''nanny_active_session'' of None \<Rightarrow> True | Some (SessionJSON a) \<Rightarrow> True
       | Some other \<Rightarrow> False) \<and>
      (case st ''nanny_sessions'' of None \<Rightarrow> True | Some (SessionsJSON l) \<Rightarrow> True
       | Some other \<Rightarrow> False) \<and>
      (case st ''home_config'' of None \<Rightarrow> True | Some (ConfigJSON h) \<Rightarrow> True
       | Some other \<Rightarrow> False))"
section \<open>The distance in exact arithmetic\<close>

lemma neg_half_angle: "(y - x) * pi / 180 / 2 = - ((x - y) * pi / 180 / 2)" for x y :: real
  by (simp add: field_simps)

lemma haversine_arg_sym:
  "sin ((lat2 - lat1) * pi / 180 / 2) * sin ((lat2 - lat1) * pi / 180 / 2) +
     cos (lat1 * pi / 180) * cos (lat2 * pi / 180) *
     sin ((lon2 - lon1) * pi / 180 / 2) * sin ((lon2 - lon1) * pi / 180 / 2) =
   sin ((lat1 - lat2) * pi / 180 / 2) * sin ((lat1 - lat2) * pi / 180 / 2) +
     cos (lat2 * pi / 180) * cos (lat1 * pi / 180) *
     sin ((lon1 - lon2) * pi / 180 / 2) * sin ((lon1 - lon2) * pi / 180 / 2)"
proof -
  have "sin ((lat2 - lat1) * pi / 180 / 2) = - sin ((lat1 - lat2) * pi / 180 / 2)"
    by (simp only: neg_half_angle [of lat2 lat1] sin_minus)
  moreover have "sin ((lon2 - lon1) * pi / 180 / 2) = - sin ((lon1 - lon2) * pi / 180 / 2)"
    by (simp only: neg_half_angle [of lon2 lon1] sin_minus)
  ultimately show ?thesis
    by (simp only: mult_minus_left mult_minus_right minus_minus mult_ac)
qed

lemma exact_distance:
  "calculateDistance exactJS (Some lat1) (Some lon1) (Some lat2) (Some lon2) =
     (if haversine_a lat1 lon1 lat2 lon2 < 0 \<or> 1 - haversine_a lat1 lon1 lat2 lon2 < 0 then None
      else Some (6371000 *
        (2 * Math_atan2 (sqrt (haversine_a lat1 lon1 lat2 lon2))
                        (sqrt (1 - haversine_a lat1 lon1 lat2 lon2)))))"
  by (simp add: calculateDistance_def exactJS_def lift2_def haversine_a_def Let_def)

text \<open>
  In exact arithmetic the distance is the same in both directions, and it is 0 from a
  point to itself. (In double arithmetic the program returns \<open>NaN\<close> for some pairs of
  nearly antipodal points, where rounding makes the term under the second square root
  negative; this is outside what the exact instance shows.)
\<close>

lemma exact_distance_symmetric_zero:
  "calculateDistance exactJS (Some lat1) (Some lon1) (Some lat2) (Some lon2) =
   calculateDistance exactJS (Some lat2) (Some lon2) (Some lat1) (Some lon1) \<and>
   calculateDistance exactJS (Some lat1) (Some lon1) (Some lat1) (Some lon1) = Some 0"
proof
  have "haversine_a lat1 lon1 lat2 lon2 = haversine_a lat2 lon2 lat1 lon1"
    unfolding haversine_a_def by (rule haversine_arg_sym [of lat2 lat1 lon2 lon1])
  then show "calculateDistance exactJS (Some lat1) (Some lon1) (Some lat2) (Some lon2) =
      calculateDistance exactJS (Some lat2) (Some lon2) (Some lat1) (Some lon1)"
    by (simp only: exact_distance)
next
  have "haversine_a lat1 lon1 lat1 lon1 = 0"
    by (simp add: haversine_a_def)
  then show "calculateDistance exactJS (Some lat1) (Some lon1) (Some lat1) (Some lon1) = Some 0"
    by (simp add: exact_distance Math_atan2_def)
qed

section \<open>Rounding to doubles\<close>

lemma pow2_powr: "pow2 e = 2 powr (of_int e)"
  by (simp add: pow2_def powr_real_of_int field_simps)

lemma pow2_pos: "0 < pow2 e"
  by (simp add: pow2_def)

lemma pow2_mono: "a \<le> b \<Longrightarrow> pow2 a \<le> pow2 b"
  by (simp add: pow2_powr)

lemma expo_eq:
  assumes "pow2 e \<le> \<bar>x\<bar>" "\<bar>x\<bar> < pow2 (e + 1)"
  shows "\<lfloor>log 2 \<bar>x\<bar>\<rfloor> = e"
proof -
  from assms(1) pow2_pos [of e] have "0 < \<bar>x\<bar>" by linarith
  then show ?thesis
    using assms by (simp add: floor_log_eq_powr_iff pow2_powr)
qed

text \<open>How \<open>fl\<close> is evaluated once the binary exponent of its argument is known.\<close>

lemma fl_eval:
  assumes "pow2 e \<le> \<bar>x\<bar>" "\<bar>x\<bar> < pow2 (e + 1)"
  shows "fl x = of_int (roundEven (x / pow2 (e - 52))) * pow2 (e - 52)"
proof -
  from assms(1) pow2_pos [of e] have "x \<noteq> 0" by auto
  then show ?thesis
    by (simp add: fl_def Let_def expo_eq [OF assms])
qed

lemma roundEven_of_int: "roundEven (of_int k) = k"
  by (simp add: roundEven_def)

text \<open>Integers up to \<open>2^53\<close> are doubles: rounding leaves them as they are.\<close>

lemma fl_of_int:
  assumes "\<bar>n\<bar> \<le> 2 ^ 53"
  shows "fl (of_int n) = of_int n"
proof (cases "n = 0")
  case True
  then show ?thesis by (simp add: fl_def)
next
  case False
  define x where "x = real_of_int n"
  define e where "e = \<lfloor>log 2 \<bar>x\<bar>\<rfloor>"
  from False have x1: "1 \<le> \<bar>x\<bar>" and x0: "x \<noteq> 0"
    unfolding x_def by (simp_all add: of_int_abs [symmetric] del: of_int_abs)
  from assms have x53: "\<bar>x\<bar> \<le> 2 ^ 53"
    unfolding x_def by (metis of_int_abs of_int_le_iff of_int_numeral of_int_power)
  have b: "pow2 e \<le> \<bar>x\<bar>" "\<bar>x\<bar> < pow2 (e + 1)"
    using x1 floor_log_eq_powr_iff [of "\<bar>x\<bar>" 2 e] by (simp_all add: e_def pow2_powr)
  have e0: "0 \<le> e"
    using x1 by (simp add: e_def zero_le_log_cancel_iff)
  have e53: "e \<le> 53"
  proof (rule ccontr)
    assume "\<not> e \<le> 53"
    then have "pow2 54 \<le> pow2 e" by (intro pow2_mono) simp
    with b(1) x53 show False by (simp add: pow2_def)
  qed
  have f: "fl x = of_int (roundEven (x / pow2 (e - 52))) * pow2 (e - 52)"
    by (rule fl_eval [OF b])
  show ?thesis
  proof (cases "e \<le> 52")
    case True
    then have q: "pow2 (e - 52) = 1 / 2 ^ nat (52 - e)"
      by (cases "e = 52") (simp_all add: pow2_def)
    have "x / pow2 (e - 52) = of_int (n * 2 ^ nat (52 - e))"
      by (simp add: q x_def)
    then have "roundEven (x / pow2 (e - 52)) = n * 2 ^ nat (52 - e)"
      by (simp only: roundEven_of_int)
    then show ?thesis
      unfolding x_def [symmetric] f by (simp add: q x_def)
  next
    case False
    with e53 have e: "e = 53" by simp
    with b(1) x53 have "\<bar>x\<bar> = 2 ^ 53" by (simp add: pow2_def)
    then have "\<bar>n\<bar> = 2 ^ 53"
      unfolding x_def by (metis of_int_abs of_int_eq_iff of_int_numeral of_int_power)
    then have "n = 2 ^ 53 \<or> n = - (2 ^ 53)" by linarith
    then have "roundEven (x / pow2 (e - 52)) * 2 = n"
      unfolding x_def e by (auto simp: pow2_def roundEven_def)
    then have "of_int (roundEven (x / pow2 (e - 52))) * 2 = x"
      unfolding x_def by (metis of_int_mult of_int_numeral)
    then show ?thesis
      unfolding x_def [symmetric] f by (simp add: e pow2_def)
  qed
qed

lemma foldl_minutes_exact:
  assumes "\<bar>a\<bar> + (\<Sum>s\<leftarrow>xs. \<bar>m s\<bar>) \<le> 2 ^ 53"
  shows "foldl (\<lambda>acc s. fl (acc + real_of_int (m s))) (real_of_int a) xs =
         real_of_int (a + (\<Sum>s\<leftarrow>xs. m s))"
  using assms
proof (induction xs arbitrary: a)
  case Nil
  then show ?case by simp
next
  case (Cons x xs)
  have le: "\<bar>a + m x\<bar> \<le> \<bar>a\<bar> + \<bar>m x\<bar>" by (rule abs_triangle_ineq)
  have nn: "0 \<le> (\<Sum>s\<leftarrow>xs. \<bar>m s\<bar>)" by (rule sum_list_nonneg) auto
  from Cons.prems le nn have "\<bar>a + m x\<bar> \<le> 2 ^ 53" by simp
  then have "fl (real_of_int a + real_of_int (m x)) = real_of_int (a + m x)"
    using fl_of_int [of "a + m x"] by simp
  moreover from Cons.prems le have "\<bar>a + m x\<bar> + (\<Sum>s\<leftarrow>xs. \<bar>m s\<bar>) \<le> 2 ^ 53" by simp
  ultimately show ?case
    using Cons.IH [of "a + m x"] by (simp add: add.assoc)
qed

text \<open>Rounding moves a number by at most half a unit in its last place.\<close>

lemma roundEven_near: "\<bar>of_int (roundEven r) - r\<bar> \<le> 1 / 2"
proof -
  have "of_int \<lfloor>r\<rfloor> \<le> r" "r < of_int \<lfloor>r\<rfloor> + 1"
    by linarith+
  then show ?thesis
    by (auto simp: roundEven_def Let_def abs_le_iff)
qed

lemma fl_near: "\<bar>fl x - x\<bar> \<le> \<bar>x\<bar> / 2 ^ 53"
proof (cases "x = 0")
  case True
  then show ?thesis by (simp add: fl_def)
next
  case False
  define e where "e = \<lfloor>log 2 \<bar>x\<bar>\<rfloor>"
  define q where "q = pow2 (e - 52)"
  have q0: "0 < q"
    unfolding q_def by (rule pow2_pos)
  from False have "0 < \<bar>x\<bar>" by simp
  then have b: "pow2 e \<le> \<bar>x\<bar>"
    using floor_log_eq_powr_iff [of "\<bar>x\<bar>" 2 e] by (simp add: e_def pow2_powr)
  have qe: "q * 2 ^ 52 = pow2 e"
    unfolding q_def pow2_powr by (simp add: powr_diff)
  have f: "fl x = of_int (roundEven (x / q)) * q"
    using False by (simp add: fl_def Let_def e_def q_def)
  have "fl x - x = (of_int (roundEven (x / q)) - x / q) * q"
    using q0 by (simp add: f field_simps)
  then have "\<bar>fl x - x\<bar> = \<bar>of_int (roundEven (x / q)) - x / q\<bar> * q"
    using q0 by (simp add: abs_mult)
  also have "\<dots> \<le> 1 / 2 * q"
    using roundEven_near [of "x / q"] q0 by (intro mult_right_mono) simp_all
  also have "\<dots> = pow2 e / 2 ^ 53"
    using qe by (simp add: field_simps)
  also have "\<dots> \<le> \<bar>x\<bar> / 2 ^ 53"
    using b by (simp add: divide_right_mono)
  finally show ?thesis .
qed

text \<open>Halving is exact.\<close>

lemma fl_half: "fl (x / 2) = fl x / 2"
proof (cases "x = 0")
  case True
  then show ?thesis by (simp add: fl_def)
next
  case False
  define y where "y = x / 2"
  define k where "k = \<lfloor>log 2 \<bar>x\<bar>\<rfloor>"
  from False have y0: "y \<noteq> 0"
    by (simp add: y_def)
  from False have "log 2 \<bar>y\<bar> = log 2 \<bar>x\<bar> - 1"
    by (simp add: y_def log_divide)
  then have e: "\<lfloor>log 2 \<bar>y\<bar>\<rfloor> = k - 1"
    by (simp add: k_def)
  have p: "pow2 (k - 1 - 52) = pow2 (k - 52) / 2"
    unfolding pow2_powr by (simp add: powr_diff)
  have q: "y / (pow2 (k - 52) / 2) = x / pow2 (k - 52)"
    by (simp add: y_def)
  have "fl y = of_int (roundEven (y / pow2 (k - 1 - 52))) * pow2 (k - 1 - 52)"
    using y0 by (simp add: fl_def Let_def e)
  also have "\<dots> = of_int (roundEven (x / pow2 (k - 52))) * pow2 (k - 52) / 2"
    by (simp only: p q times_divide_eq_right)
  also have "\<dots> = fl x / 2"
    using False by (simp add: fl_def Let_def k_def)
  finally show ?thesis
    by (simp only: y_def)
qed
section \<open>Decimal texts: writing a number and reading it back\<close>

lemma digit_cases: "d < 10 \<Longrightarrow> d \<in> {0, 1, 2, 3, 4, 5, 6, 7, 8, 9 :: nat}"
  by auto

lemma digit_char_props:
  assumes "d < 10"
  shows "digit_value (digit_char d) = d" and "is_digit (digit_char d)"
  using digit_cases [OF assms]
  by (auto simp: digit_char_def digit_value_def is_digit_def)

lemma digits_all_digit: "\<forall>c \<in> set (digits n). is_digit c"
proof (induction n rule: digits.induct)
  case (1 n)
  show ?case
  proof (cases "n < 10")
    case True
    then show ?thesis by (subst digits.simps) (simp add: digit_char_props)
  next
    case False
    with 1 have "\<forall>c \<in> set (digits (n div 10)). is_digit c" by simp
    moreover have "is_digit (digit_char (n mod 10))" by (simp add: digit_char_props)
    ultimately show ?thesis using False by (subst digits.simps) auto
  qed
qed

lemma digits_nonempty: "digits n \<noteq> []"
  by (subst digits.simps) simp

lemma digits_value_snoc: "digits_value (cs @ [c]) = 10 * digits_value cs + digit_value c"
  by (simp add: digits_value_def)

lemma digits_value_digits: "digits_value (digits n) = n"
proof (induction n rule: digits.induct)
  case (1 n)
  show ?case
  proof (cases "n < 10")
    case True
    then show ?thesis by (subst digits.simps) (simp add: digits_value_def digit_char_props)
  next
    case False
    with 1 have "digits_value (digits (n div 10)) = n div 10" by simp
    then show ?thesis using False
      by (subst digits.simps) (simp add: digits_value_snoc digit_char_props)
  qed
qed

lemma not_digit_marks:
  "\<not> is_digit CHR ''.''" "\<not> is_digit CHR ''-''" "\<not> is_digit CHR ''+''"
  by (simp_all add: is_digit_def)

lemma hd_digits_is_digit: "is_digit (hd (digits n))"
  using digits_all_digit [of n] digits_nonempty [of n] by (cases "digits n") auto

lemma hd_digits_no_sign: "hd (digits n) \<noteq> CHR ''-''" "hd (digits n) \<noteq> CHR ''+''"
  using hd_digits_is_digit [of n] not_digit_marks by metis+

lemma takeWhile_digits: "takeWhile is_digit (digits n @ CHR ''.'' # r) = digits n"
  using digits_all_digit [of n] by (simp add: takeWhile_append2 not_digit_marks)

lemma dropWhile_digits: "dropWhile is_digit (digits n @ CHR ''.'' # r) = CHR ''.'' # r"
  using digits_all_digit [of n] by (simp add: dropWhile_append2 not_digit_marks)


lemma two_digits:
  assumes "a < 10" "b < 10"
  shows "takeWhile is_digit [digit_char a, digit_char b] = [digit_char a, digit_char b]"
    and "digits_value [digit_char a, digit_char b] = 10 * a + b"
  using assms by (simp_all add: digits_value_def digit_char_props)

lemma parseFloat_unsigned_shape:
  assumes "r \<noteq> []" "hd r \<noteq> CHR ''-''" "hd r \<noteq> CHR ''+''"
  shows "parseFloat r =
     (let ip = takeWhile is_digit r; rest = dropWhile is_digit r;
          fp = (if rest \<noteq> [] \<and> hd rest = CHR ''.'' then takeWhile is_digit (tl rest) else [])
      in if ip = [] \<and> fp = [] then None
         else Some (fl (real (digits_value ip) + real (digits_value fp) / 10 ^ length fp)))"
  using assms by (simp add: parseFloat_def Let_def)

lemma parseFloat_minus_shape:
  "parseFloat (CHR ''-'' # r) =
     (let ip = takeWhile is_digit r; rest = dropWhile is_digit r;
          fp = (if rest \<noteq> [] \<and> hd rest = CHR ''.'' then takeWhile is_digit (tl rest) else [])
      in if ip = [] \<and> fp = [] then None
         else Some (fl (- (real (digits_value ip) + real (digits_value fp) / 10 ^ length fp))))"
  by (simp add: parseFloat_def Let_def)

lemma hundredths_split:
  "real (n div 100) + real (10 * (n mod 100 div 10) + n mod 10) / 100 = real n / 100"
proof -
  have "n mod 100 mod 10 = n mod 10"
    by (simp add: mod_mod_cancel)
  moreover have "10 * (n mod 100 div 10) + n mod 100 mod 10 = n mod 100"
    by (rule mult_div_mod_eq)
  ultimately have lo: "10 * (n mod 100 div 10) + n mod 10 = n mod 100"
    by simp
  have "real n = real (100 * (n div 100) + n mod 100)"
    by (simp only: mult_div_mod_eq)
  also have "\<dots> = 100 * real (n div 100) + real (n mod 100)"
    by (simp only: of_nat_add of_nat_mult of_nat_numeral)
  finally have "real n / 100 = real (n div 100) + real (n mod 100) / 100"
    by simp
  then show ?thesis
    by (simp only: lo)
qed

lemma digit_bounds: "n mod 100 div 10 < 10" "n mod 10 < (10::nat)"
proof -
  have "n mod 100 < 100" by simp
  then show "n mod 100 div 10 < 10" by (simp add: less_mult_imp_div_less)
  show "n mod 10 < 10" by simp
qed

lemma parse_unsigned:
  assumes "a < 10" "b < 10"
  shows "parseFloat (digits m @ CHR ''.'' # [digit_char a, digit_char b]) =
     Some (fl (real m + real (10 * a + b) / 100))"
proof -
  let ?r = "digits m @ CHR ''.'' # [digit_char a, digit_char b]"
  have "?r \<noteq> []" by simp
  moreover have "hd ?r = hd (digits m)" by (simp add: digits_nonempty)
  ultimately have "parseFloat ?r =
     (let ip = takeWhile is_digit ?r; rest = dropWhile is_digit ?r;
          fp = (if rest \<noteq> [] \<and> hd rest = CHR ''.'' then takeWhile is_digit (tl rest) else [])
      in if ip = [] \<and> fp = [] then None
         else Some (fl (real (digits_value ip) + real (digits_value fp) / 10 ^ length fp)))"
    by (intro parseFloat_unsigned_shape) (simp_all only: hd_digits_no_sign not_False_eq_True)
  then show ?thesis
    using assms
    by (simp add: Let_def takeWhile_digits dropWhile_digits digit_char_props
        digits_value_digits digits_nonempty digits_value_def [of "[x, y]" for x y])
qed

lemma parse_signed:
  assumes "a < 10" "b < 10"
  shows "parseFloat (CHR ''-'' # digits m @ CHR ''.'' # [digit_char a, digit_char b]) =
     Some (fl (- (real m + real (10 * a + b) / 100)))"
  using assms
  by (simp add: parseFloat_minus_shape Let_def takeWhile_digits dropWhile_digits
      digit_char_props digits_value_digits digits_nonempty digits_value_def [of "[x, y]" for x y])

lemma parse_hundredths:
  "parseFloat (digits (n div 100) @ CHR ''.'' #
     [digit_char (n mod 100 div 10), digit_char (n mod 10)]) = Some (fl (real n / 100))"
  "parseFloat (CHR ''-'' # digits (n div 100) @ CHR ''.'' #
     [digit_char (n mod 100 div 10), digit_char (n mod 10)]) = Some (fl (- (real n / 100)))"
  using parse_unsigned [OF digit_bounds [of n], of "n div 100"]
    parse_signed [OF digit_bounds [of n], of "n div 100"]
  by (simp_all only: hundredths_split)

text \<open>
  Reading back what \<open>toFixed(2)\<close> wrote gives the double nearest to the two-decimal
  number.
\<close>

lemma parseFloat_toFixed2: "parseFloat (toFixed2 x) = Some (fl (fixed2 x))"
proof -
  define n where "n = nat \<lfloor>\<bar>x\<bar> * 100 + 1 / 2\<rfloor>"
  have t: "toFixed2 x = (if x < 0 then ''-'' else []) @ digits (n div 100) @ CHR ''.'' #
             [digit_char (n mod 100 div 10), digit_char (n mod 10)]"
    by (simp add: toFixed2_def Let_def n_def)
  have f: "fixed2 x = (if x < 0 then - 1 else 1) * (real n / 100)"
    by (simp add: fixed2_def n_def)
  show ?thesis
    by (cases "x < 0") (simp_all add: t f parse_hundredths)
qed

lemma fixed2_near: "\<bar>fixed2 x - x\<bar> \<le> 1 / 200"
proof -
  define n where "n = \<lfloor>\<bar>x\<bar> * 100 + 1 / 2\<rfloor>"
  define q where "q = real_of_int n / 100"
  have "0 \<le> n" by (simp add: n_def)
  then have r: "real (nat n) = of_int n" by simp
  have "of_int n \<le> \<bar>x\<bar> * 100 + 1 / 2" "\<bar>x\<bar> * 100 + 1 / 2 < of_int n + 1"
    unfolding n_def by linarith+
  then have b: "q - \<bar>x\<bar> \<le> 1 / 200" "\<bar>x\<bar> - q \<le> 1 / 200"
    unfolding q_def by linarith+
  have f: "fixed2 x = (if x < 0 then - q else q)"
    by (simp add: fixed2_def n_def [symmetric] r q_def)
  show ?thesis
  proof (cases "x < 0")
    case True
    with b have "- q - x \<le> 1 / 200" "- (- q - x) \<le> 1 / 200" by linarith+
    then have "\<bar>- q - x\<bar> \<le> 1 / 200" by (simp only: abs_le_iff)
    with f True show ?thesis by simp
  next
    case False
    with b have "q - x \<le> 1 / 200" "- (q - x) \<le> 1 / 200" by linarith+
    then have "\<bar>q - x\<bar> \<le> 1 / 200" by (simp only: abs_le_iff)
    with f False show ?thesis by simp
  qed
qed

section \<open>Totals of a pay period\<close>

lemma totalHours_exact_sum:
  assumes "(\<Sum>s\<leftarrow>filtered. \<bar>case durationInMinutes s of None \<Rightarrow> 0 | Some d \<Rightarrow> d\<bar>) \<le> 2 ^ 53"
  shows "totalHours filtered =
     toFixed2 (fl (real_of_int
       (\<Sum>s\<leftarrow>filtered. case durationInMinutes s of None \<Rightarrow> 0 | Some d \<Rightarrow> d) / 60))"
proof -
  have m: "minutesOrZero = (\<lambda>s. case durationInMinutes s of None \<Rightarrow> 0 | Some d \<Rightarrow> d)"
    by (rule ext) (simp add: minutesOrZero_def)
  have "foldl (\<lambda>acc s. fl (acc + real_of_int (minutesOrZero s))) (real_of_int 0) filtered =
      real_of_int (0 + (\<Sum>s\<leftarrow>filtered. minutesOrZero s))"
    by (rule foldl_minutes_exact) (use assms in \<open>simp add: m\<close>)
  then show ?thesis
    by (simp add: totalHours_def m)
qed

lemma fl_small:
  "fl 3 = 3" "fl 75 = 75" "fl (3 / 2) = 3 / 2" "fl (75 / 2) = 75 / 2"
  by (simp_all add: fl_eval [where e = 1] fl_eval [where e = 6] fl_eval [where e = 0]
      fl_eval [where e = 5] pow2_def roundEven_def Let_def)

text \<open>
  C6, as amended. For durations whose absolute values sum to at most \<open>2^53\<close> minutes
  and an hourly rate that is 0 or of a magnitude between \<open>2^-1000\<close> and \<open>10^6\<close> (so that
  every intermediate result is in the range where doubles have 53 bits and \<open>toFixed\<close>
  writes decimals), \<open>totalHours\<close> is the sum of the durations of the filtered sessions (a missing
  duration counting as 0) divided by 60 in double arithmetic, written with two
  decimals. \<open>totalPay\<close> is not computed from that quotient but from the text: it is
  the double nearest to the two-decimal figure, times the hourly rate in double
  arithmetic, written with two decimals again. The two-decimal figure is within half a
  hundredth of the quotient. For the durations 60, 90 and 30 and the rate 25 the texts
  are \<open>3.00\<close> and \<open>75.00\<close>.
\<close>

theorem totals_two_decimals:
  assumes "(\<Sum>s\<leftarrow>filtered. \<bar>case durationInMinutes s of None \<Rightarrow> 0 | Some d \<Rightarrow> d\<bar>) \<le> 2 ^ 53"
    and "hourlyRate = 0 \<or> 1 / 2 ^ 1000 \<le> \<bar>hourlyRate\<bar> \<and> \<bar>hourlyRate\<bar> \<le> 10 ^ 6"
  shows "totalHours filtered =
           toFixed2 (fl (real_of_int
             (\<Sum>s\<leftarrow>filtered. case durationInMinutes s of None \<Rightarrow> 0 | Some d \<Rightarrow> d) / 60)) \<and>
         totalPay (totalHours filtered) hourlyRate =
           toFixed2 (fl (fl (fixed2 (fl (real_of_int
             (\<Sum>s\<leftarrow>filtered. case durationInMinutes s of None \<Rightarrow> 0 | Some d \<Rightarrow> d) / 60))) *
             hourlyRate)) \<and>
         \<bar>fixed2 (fl (real_of_int
             (\<Sum>s\<leftarrow>filtered. case durationInMinutes s of None \<Rightarrow> 0 | Some d \<Rightarrow> d) / 60)) -
           fl (real_of_int
             (\<Sum>s\<leftarrow>filtered. case durationInMinutes s of None \<Rightarrow> 0 | Some d \<Rightarrow> d) / 60)\<bar> \<le> 1 / 200 \<and>
         (map durationInMinutes filtered = [Some 60, Some 90, Some 30] \<longrightarrow>
            totalHours filtered = ''3.00'' \<and> totalPay (totalHours filtered) 25 = ''75.00'')"
proof -
  let ?h = "fl (real_of_int
    (\<Sum>s\<leftarrow>filtered. case durationInMinutes s of None \<Rightarrow> 0 | Some d \<Rightarrow> d) / 60)"
  have h: "totalHours filtered = toFixed2 ?h"
    by (rule totalHours_exact_sum [OF assms(1)])
  have p: "totalPay (totalHours filtered) r = toFixed2 (fl (fl (fixed2 ?h) * r))" for r
    by (simp add: totalPay_def h parseFloat_toFixed2)
  have e: "toFixed2 3 = ''3.00''" "toFixed2 (fl (fl (fixed2 3) * 25)) = ''75.00''"
    by (simp_all add: fixed2_def fl_small) (simp_all add: toFixed2_def digits.simps digit_char_def)
  have "totalHours filtered = ''3.00'' \<and> totalPay (totalHours filtered) 25 = ''75.00''"
    if "map durationInMinutes filtered = [Some 60, Some 90, Some 30]"
  proof -
    have "(\<Sum>s\<leftarrow>filtered. case durationInMinutes s of None \<Rightarrow> 0 | Some d \<Rightarrow> d) =
        (\<Sum>d\<leftarrow>map durationInMinutes filtered. case d of None \<Rightarrow> 0 | Some d \<Rightarrow> d)"
      by (simp add: comp_def)
    also have "\<dots> = 180"
      unfolding that by simp
    finally have hs: "?h = 3"
      by (simp add: fl_small)
    show ?thesis
      using h p [of 25] e unfolding hs by (simp only:)
  qed
  then show ?thesis
    using h p fixed2_near by blast
qed

theorem totals_two_decimals_witness:
  "(\<Sum>s\<leftarrow>[newSess ''a'' 0 None\<lparr>durationInMinutes := Some 60\<rparr>,
          newSess ''b'' 0 None\<lparr>durationInMinutes := Some 90\<rparr>,
          newSess ''c'' 0 None\<lparr>durationInMinutes := Some 30\<rparr>].
      \<bar>case durationInMinutes s of None \<Rightarrow> 0 | Some d \<Rightarrow> d\<bar>) \<le> 2 ^ 53 \<and>
   ((25 :: real) = 0 \<or> 1 / 2 ^ 1000 \<le> \<bar>25 :: real\<bar> \<and> \<bar>25 :: real\<bar> \<le> 10 ^ 6) \<and>
   totalHours
     [newSess ''a'' 0 None\<lparr>durationInMinutes := Some 60\<rparr>,
      newSess ''b'' 0 None\<lparr>durationInMinutes := Some 90\<rparr>,
      newSess ''c'' 0 None\<lparr>durationInMinutes := Some 30\<rparr>] = ''3.00'' \<and>
   totalPay (totalHours
     [newSess ''a'' 0 None\<lparr>durationInMinutes := Some 60\<rparr>,
      newSess ''b'' 0 None\<lparr>durationInMinutes := Some 90\<rparr>,
      newSess ''c'' 0 None\<lparr>durationInMinutes := Some 30\<rparr>]) 25 = ''75.00''"
proof -
  have b: "(\<Sum>s\<leftarrow>[newSess ''a'' 0 None\<lparr>durationInMinutes := Some 60\<rparr>,
          newSess ''b'' 0 None\<lparr>durationInMinutes := Some 90\<rparr>,
          newSess ''c'' 0 None\<lparr>durationInMinutes := Some 30\<rparr>].
      \<bar>case durationInMinutes s of None \<Rightarrow> 0 | Some d \<Rightarrow> d\<bar>) \<le> 2 ^ 53"
    by (simp add: newSess_def)
  have m: "map durationInMinutes
     [newSess ''a'' 0 None\<lparr>durationInMinutes := Some 60\<rparr>,
      newSess ''b'' 0 None\<lparr>durationInMinutes := Some 90\<rparr>,
      newSess ''c'' 0 None\<lparr>durationInMinutes := Some 30\<rparr>] = [Some 60, Some 90, Some 30]"
    by (simp add: newSess_def)
  have r: "(25 :: real) = 0 \<or> 1 / 2 ^ 1000 \<le> \<bar>25 :: real\<bar> \<and> \<bar>25 :: real\<bar> \<le> 10 ^ 6"
    by simp
  show ?thesis
    by (intro conjI b r totals_two_decimals [OF b r, THEN conjunct2, THEN conjunct2,
          THEN conjunct2, THEN mp, OF m, THEN conjunct1]
        totals_two_decimals [OF b r, THEN conjunct2, THEN conjunct2,
          THEN conjunct2, THEN mp, OF m, THEN conjunct2])
qed

text \<open>
  A session without a duration counts as 0: for the durations 60, none and 30 the
  hours are \<open>1.50\<close> and the pay at the rate 25 is \<open>37.50\<close>.
\<close>

lemma totals_missing_duration:
  "totalHours
     [newSess ''a'' 0 None\<lparr>durationInMinutes := Some 60\<rparr>, newSess ''b'' 0 None,
      newSess ''c'' 0 None\<lparr>durationInMinutes := Some 30\<rparr>] = ''1.50'' \<and>
   totalPay (totalHours
     [newSess ''a'' 0 None\<lparr>durationInMinutes := Some 60\<rparr>, newSess ''b'' 0 None,
      newSess ''c'' 0 None\<lparr>durationInMinutes := Some 30\<rparr>]) 25 = ''37.50''"
proof -
  have h: "totalHours
     [newSess ''a'' 0 None\<lparr>durationInMinutes := Some 60\<rparr>, newSess ''b'' 0 None,
      newSess ''c'' 0 None\<lparr>durationInMinutes := Some 30\<rparr>] = toFixed2 (3 / 2)"
    by (simp add: totalHours_def minutesOrZero_def newSess_def fl_eval [where e = 5]
        fl_eval [where e = 6] fl_eval [where e = 0] pow2_def roundEven_def Let_def)
  have f: "fixed2 (3 / 2) = 3 / 2"
    by (simp add: fixed2_def)
  have t: "toFixed2 (3 / 2) = ''1.50''" "toFixed2 (75 / 2) = ''37.50''"
    by (simp_all add: toFixed2_def digits.simps digit_char_def)
  have m: "(3 / 2 :: real) * 25 = 75 / 2"
    by simp
  have "totalPay (toFixed2 (3 / 2)) 25 = toFixed2 (fl (fl (fixed2 (3 / 2)) * 25))"
    by (simp only: totalPay_def parseFloat_toFixed2 option.case)
  then have "totalPay (toFixed2 (3 / 2)) 25 = ''37.50''"
    by (simp only: f fl_small m t)
  then show ?thesis
    by (simp only: h t simp_thms)
qed

text \<open>
  The products are products of doubles: for 34 minutes at the rate 12.5 the hours are
  \<open>0.57\<close>, the double nearest to 0.57 is a little less than 0.57, and the pay is
  \<open>7.12\<close>, where the exact product 7.125 would be written \<open>7.13\<close>.
\<close>

lemma totals_double_product:
  "totalHours [newSess ''a'' 0 None\<lparr>durationInMinutes := Some 34\<rparr>] = ''0.57'' \<and>
   totalPay (totalHours [newSess ''a'' 0 None\<lparr>durationInMinutes := Some 34\<rparr>]) (25 / 2) =
     ''7.12'' \<and>
   toFixed2 (57 / 100 * (25 / 2)) = ''7.13''"
proof -
  have q: "fl (17 / 30) = 2552039788843281 / 4503599627370496"
    by (simp add: fl_eval [where e = "- 1"] pow2_def roundEven_def Let_def)
  have h: "totalHours [newSess ''a'' 0 None\<lparr>durationInMinutes := Some 34\<rparr>] =
      toFixed2 (2552039788843281 / 4503599627370496)"
    by (simp add: totalHours_def minutesOrZero_def newSess_def fl_eval [where e = 5]
        pow2_def roundEven_def Let_def q)
  have f: "fixed2 (2552039788843281 / 4503599627370496) = 57 / 100"
    by (simp add: fixed2_def)
  have r: "fl (57 / 100) = 5134103575202365 / 9007199254740992"
    by (simp add: fl_eval [where e = "- 1"] pow2_def roundEven_def Let_def)
  have p: "fl (5134103575202365 / 9007199254740992 * (25 / 2)) =
      8022036836253695 / 1125899906842624"
    by (simp add: fl_eval [where e = 2] pow2_def roundEven_def Let_def)
  have t: "toFixed2 (2552039788843281 / 4503599627370496) = ''0.57''"
    "toFixed2 (8022036836253695 / 1125899906842624) = ''7.12''"
    "toFixed2 (57 / 100 * (25 / 2)) = ''7.13''"
    by (simp_all add: toFixed2_def digits.simps digit_char_def)
  have "totalPay (toFixed2 (2552039788843281 / 4503599627370496)) (25 / 2) =
      toFixed2 (fl (fl (fixed2 (2552039788843281 / 4503599627370496)) * (25 / 2)))"
    by (simp only: totalPay_def parseFloat_toFixed2 option.case)
  then have "totalPay (toFixed2 (2552039788843281 / 4503599627370496)) (25 / 2) = ''7.12''"
    by (simp only: f r p t)
  then show ?thesis
    by (simp only: h t simp_thms)
qed

text \<open>
  C6 as stated fails where rounding the hours to two decimals changes the product: for
  one session of 20 minutes and the rate 30 the hours are \<open>0.33\<close> and the program shows
  the pay \<open>9.90\<close>, while the sum divided by 60 and multiplied by the rate is 10, which to
  two decimals is \<open>10.00\<close> (in exact and in double arithmetic).
\<close>

theorem totals_two_decimals_counterexample:
  "totalHours [newSess ''a'' 0 None\<lparr>durationInMinutes := Some 20\<rparr>] = ''0.33'' \<and>
   totalPay (totalHours [newSess ''a'' 0 None\<lparr>durationInMinutes := Some 20\<rparr>]) 30 = ''9.90'' \<and>
   toFixed2 (real_of_int 20 / 60 * 30) = ''10.00'' \<and>
   toFixed2 (fl (fl (real_of_int 20 / 60) * 30)) = ''10.00''"
proof -
  have q: "fl (1 / 3) = 6004799503160661 / 18014398509481984"
    by (simp add: fl_eval [where e = "- 2"] pow2_def roundEven_def Let_def)
  have h: "totalHours [newSess ''a'' 0 None\<lparr>durationInMinutes := Some 20\<rparr>] =
      toFixed2 (6004799503160661 / 18014398509481984)"
    by (simp add: totalHours_def minutesOrZero_def newSess_def fl_eval [where e = 4]
        pow2_def roundEven_def Let_def q)
  have f: "fixed2 (6004799503160661 / 18014398509481984) = 33 / 100"
    by (simp add: fixed2_def)
  have r: "fl (33 / 100) = 5944751508129055 / 18014398509481984"
    by (simp add: fl_eval [where e = "- 2"] pow2_def roundEven_def Let_def)
  have p: "fl (5944751508129055 / 18014398509481984 * 30) =
      5573204538870989 / 562949953421312"
    by (simp add: fl_eval [where e = 3] pow2_def roundEven_def Let_def)
  have d: "fl (6004799503160661 / 18014398509481984 * 30) = 10"
    by (simp add: fl_eval [where e = 3] pow2_def roundEven_def Let_def)
  have t: "toFixed2 (6004799503160661 / 18014398509481984) = ''0.33''"
    "toFixed2 (5573204538870989 / 562949953421312) = ''9.90''"
    "toFixed2 10 = ''10.00''"
    by (simp_all add: toFixed2_def digits.simps digit_char_def)
  have "totalPay (toFixed2 (6004799503160661 / 18014398509481984)) 30 =
      toFixed2 (fl (fl (fixed2 (6004799503160661 / 18014398509481984)) * 30))"
    by (simp only: totalPay_def parseFloat_toFixed2 option.case)
  then have a: "totalPay (toFixed2 (6004799503160661 / 18014398509481984)) 30 = ''9.90''"
    by (simp only: f r p t)
  have "real_of_int 20 / 60 = 1 / 3" "real_of_int 20 / 60 * 30 = 10"
    by simp_all
  then have b: "toFixed2 (real_of_int 20 / 60 * 30) = ''10.00''"
    "toFixed2 (fl (fl (real_of_int 20 / 60) * 30)) = ''10.00''"
    by (simp_all only: q d t)
  show ?thesis
    using a b by (simp only: h t simp_thms)
qed

section \<open>Clock-in and the geofence (src/App.tsx)\<close>

lemma exact_pole_to_pole:
  "calculateDistance exactJS (Some (- 90)) (Some 0) (Some 90) (Some 0) = Some (6371000 * pi)"
  by (simp add: exact_distance haversine_a_def Math_atan2_def)

lemma exact_half_equator:
  "calculateDistance exactJS (Some 0) (Some 0) (Some 0) (Some 180) = Some (6371000 * pi)"
  by (simp add: exact_distance haversine_a_def Math_atan2_def)

lemma exact_half_equator_west:
  "calculateDistance exactJS (Some 0) (Some 0) (Some 0) (Some (- 180)) = Some (6371000 * pi)"
  by (simp add: exact_distance haversine_a_def Math_atan2_def)

lemma far_away: "(200 :: real) < 6371000 * pi"
  using pi_ge_two by simp

lemma exact_gt: "js_gt exactJS (Some a) (Some b) = (b < a)" "js_num exactJS x = Some x"
  by (simp_all add: exactJS_def)

text \<open>
  C1, as amended. In src/App.tsx, in the arithmetic of any platform: when the location
  request succeeds, the home latitude is not 0 and the distance that the program
  computes from the acquired point to the home coordinate compares greater than
  \<open>radiusMeters\<close> (which a distance that is \<open>NaN\<close> does not), clock-in only sets the
  mismatch message, which carries the rounded distance: the session list, the
  active-session slot, the status and the store stay as they were.
\<close>

theorem clock_in_outside_radius_aborts:
  assumes "lat (homeConfig s) \<noteq> 0"
    and "js_gt J
           (calculateDistance J (js_num J ulat) (js_num J ulng)
              (js_num J (lat (homeConfig s))) (js_num J (lng (homeConfig s))))
           (js_num J (radiusMeters (homeConfig s)))"
  shows "handleClockIn J (Some (ulat, ulng)) now uuid s =
           s\<lparr>error := Some (''Location mismatch: You are '' @
             js_toString J (js_round J
               (calculateDistance J (js_num J ulat) (js_num J ulng)
                  (js_num J (lat (homeConfig s))) (js_num J (lng (homeConfig s))))) @
             ''m away from home.'')\<rparr> \<and>
         sessions (handleClockIn J (Some (ulat, ulng)) now uuid s) = sessions s \<and>
         activeSession (handleClockIn J (Some (ulat, ulng)) now uuid s) = activeSession s \<and>
         status (handleClockIn J (Some (ulat, ulng)) now uuid s) = status s \<and>
         step J (ClockIn (Some (ulat, ulng)) now uuid) (s, st) =
           Some (handleClockIn J (Some (ulat, ulng)) now uuid s, st)"
proof -
  have eq: "handleClockIn J (Some (ulat, ulng)) now uuid s =
           s\<lparr>error := Some (''Location mismatch: You are '' @
             js_toString J (js_round J
               (calculateDistance J (js_num J ulat) (js_num J ulng)
                  (js_num J (lat (homeConfig s))) (js_num J (lng (homeConfig s))))) @
             ''m away from home.'')\<rparr>"
    using assms by (simp add: handleClockIn_def Let_def mismatchMessage_def)
  show ?thesis
    unfolding step.simps Let_def eq by (simp add: runEffects_def)
qed

theorem clock_in_outside_radius_aborts_witness:
  "lat \<lparr>lat = 90, lng = 0, radiusMeters = 200\<rparr> \<noteq> 0 \<and>
   js_gt exactJS (calculateDistance exactJS (js_num exactJS (- 90)) (js_num exactJS 0)
                    (js_num exactJS 90) (js_num exactJS 0)) (js_num exactJS 200) \<and>
   handleClockIn exactJS (Some (- 90, 0)) 1000 ''u''
     \<lparr>sessions = [], activeSession = None, status = CLOCKED_OUT, error = None,
      homeConfig = \<lparr>lat = 90, lng = 0, radiusMeters = 200\<rparr>\<rparr> =
   \<lparr>sessions = [], activeSession = None, status = CLOCKED_OUT,
    error = Some (''Location mismatch: You are '' @ showInt (Math_round (6371000 * pi)) @
                  ''m away from home.''),
    homeConfig = \<lparr>lat = 90, lng = 0, radiusMeters = 200\<rparr>\<rparr>"
proof -
  have g: "js_gt exactJS (calculateDistance exactJS (js_num exactJS (- 90)) (js_num exactJS 0)
                    (js_num exactJS 90) (js_num exactJS 0)) (js_num exactJS 200)"
    using far_away by (simp add: exact_gt exact_pole_to_pole)
  have t: "js_toString exactJS (js_round exactJS (Some (6371000 * pi))) =
      showInt (Math_round (6371000 * pi))"
    by (simp add: exactJS_def)
  show ?thesis
    using g clock_in_outside_radius_aborts
      [of "\<lparr>sessions = [], activeSession = None, status = CLOCKED_OUT, error = None,
            homeConfig = \<lparr>lat = 90, lng = 0, radiusMeters = 200\<rparr>\<rparr>" exactJS "- 90" 0 1000 "''u''"]
    by (simp add: exact_gt exact_pole_to_pole t)
qed

text \<open>
  The clock-in of part_001 consults no home configuration: with a location it always
  creates the session.
\<close>

lemma sync_clock_in_has_no_geofence:
  "activeSession (fst (handleClockIn_sync (Some loc) now uuid w)) =
     Some (newSess uuid now (Some loc)) \<and>
   error (fst (handleClockIn_sync (Some loc) now uuid w)) = None"
  by (simp add: handleClockIn_sync_def Let_def)

text \<open>
  C1 as stated fails where the home coordinate is not \<open>(0,0)\<close> but has latitude 0: with
  the home at \<open>(0, 180)\<close> and radius 200, a clock-in from \<open>(0, 0)\<close>, half the equator
  away, creates the active session and reports no mismatch. The handler does not
  compute a distance there, so the arithmetic plays no part; the distance named in the
  statement is the exact one.
\<close>

theorem clock_in_outside_radius_counterexample:
  "\<not> (lat \<lparr>lat = 0, lng = 180, radiusMeters = 200\<rparr> = 0 \<and>
      lng \<lparr>lat = 0, lng = 180, radiusMeters = 200\<rparr> = 0) \<and>
   js_gt exactJS (calculateDistance exactJS (Some 0) (Some 0) (Some 0) (Some 180))
     (Some (radiusMeters \<lparr>lat = 0, lng = 180, radiusMeters = 200\<rparr>)) \<and>
   handleClockIn exactJS (Some (0, 0)) 1000 ''u''
     \<lparr>sessions = [], activeSession = None, status = CLOCKED_OUT, error = None,
      homeConfig = \<lparr>lat = 0, lng = 180, radiusMeters = 200\<rparr>\<rparr> =
   \<lparr>sessions = [], activeSession = Some (newSess ''u'' 1000 (Some (0, 0))),
    status = CLOCKED_IN, error = None,
    homeConfig = \<lparr>lat = 0, lng = 180, radiusMeters = 200\<rparr>\<rparr>"
  using far_away by (simp add: exact_gt exact_half_equator handleClockIn_def)

text \<open>
  C3, as amended. In the arithmetic of any platform, the geofence check is skipped
  exactly when the home latitude is 0, whatever the longitude: then a clock-in with a
  location always creates the session. With any other home latitude the distance is
  computed and classified: the mismatch message is set when the computed distance
  compares greater than \<open>radiusMeters\<close>, and the session is created when it does not.
\<close>

theorem geofence_check_iff_lat_nonzero:
  "(lat (homeConfig s) = 0 \<longrightarrow>
      handleClockIn J (Some (ulat, ulng)) now uuid s =
        s\<lparr>error := None, activeSession := Some (newSess uuid now (Some (ulat, ulng))),
          status := CLOCKED_IN\<rparr>) \<and>
   (lat (homeConfig s) \<noteq> 0 \<longrightarrow>
      handleClockIn J (Some (ulat, ulng)) now uuid s =
        (if js_gt J
              (calculateDistance J (js_num J ulat) (js_num J ulng)
                 (js_num J (lat (homeConfig s))) (js_num J (lng (homeConfig s))))
              (js_num J (radiusMeters (homeConfig s)))
         then s\<lparr>error := Some (mismatchMessage J
                (calculateDistance J (js_num J ulat) (js_num J ulng)
                   (js_num J (lat (homeConfig s))) (js_num J (lng (homeConfig s)))))\<rparr>
         else s\<lparr>error := None, activeSession := Some (newSess uuid now (Some (ulat, ulng))),
                status := CLOCKED_IN\<rparr>))"
  by (simp add: handleClockIn_def Let_def)

theorem geofence_check_iff_lat_nonzero_witness:
  "handleClockIn exactJS (Some (0, 0)) 1000 ''u''
     \<lparr>sessions = [], activeSession = None, status = CLOCKED_OUT, error = None,
      homeConfig = \<lparr>lat = 0, lng = 35, radiusMeters = 200\<rparr>\<rparr> =
   \<lparr>sessions = [], activeSession = Some (newSess ''u'' 1000 (Some (0, 0))),
    status = CLOCKED_IN, error = None,
    homeConfig = \<lparr>lat = 0, lng = 35, radiusMeters = 200\<rparr>\<rparr> \<and>
   handleClockIn exactJS (Some (- 90, 0)) 1000 ''u''
     \<lparr>sessions = [], activeSession = None, status = CLOCKED_OUT, error = None,
      homeConfig = \<lparr>lat = 90, lng = 0, radiusMeters = 200\<rparr>\<rparr> =
   \<lparr>sessions = [], activeSession = None, status = CLOCKED_OUT,
    error = Some (mismatchMessage exactJS (Some (6371000 * pi))),
    homeConfig = \<lparr>lat = 90, lng = 0, radiusMeters = 200\<rparr>\<rparr> \<and>
   handleClockIn exactJS (Some (90, 0)) 1000 ''u''
     \<lparr>sessions = [], activeSession = None, status = CLOCKED_OUT, error = None,
      homeConfig = \<lparr>lat = 90, lng = 0, radiusMeters = 200\<rparr>\<rparr> =
   \<lparr>sessions = [], activeSession = Some (newSess ''u'' 1000 (Some (90, 0))),
    status = CLOCKED_IN, error = None,
    homeConfig = \<lparr>lat = 90, lng = 0, radiusMeters = 200\<rparr>\<rparr>"
  using geofence_check_iff_lat_nonzero
    [of "\<lparr>sessions = [], activeSession = None, status = CLOCKED_OUT, error = None,
          homeConfig = \<lparr>lat = 0, lng = 35, radiusMeters = 200\<rparr>\<rparr>" exactJS 0 0 1000 "''u''"]
    geofence_check_iff_lat_nonzero
    [of "\<lparr>sessions = [], activeSession = None, status = CLOCKED_OUT, error = None,
          homeConfig = \<lparr>lat = 90, lng = 0, radiusMeters = 200\<rparr>\<rparr>" exactJS "- 90" 0 1000 "''u''"]
    geofence_check_iff_lat_nonzero
    [of "\<lparr>sessions = [], activeSession = None, status = CLOCKED_OUT, error = None,
          homeConfig = \<lparr>lat = 90, lng = 0, radiusMeters = 200\<rparr>\<rparr>" exactJS 90 0 1000 "''u''"]
    far_away exact_distance_symmetric_zero [of 90 0 90 0]
  by (simp add: exact_gt exact_pole_to_pole)

text \<open>
  C3 as stated fails at a home coordinate with latitude 0 and another longitude: the
  home \<open>(0, - 180)\<close> is not \<open>(0,0)\<close>, the point \<open>(0, 0)\<close> is farther from it than the
  radius, and yet clock-in goes through without a mismatch, so no classification took
  place.
\<close>

theorem geofence_check_counterexample:
  "(lat \<lparr>lat = 0, lng = - 180, radiusMeters = 200\<rparr>,
    lng \<lparr>lat = 0, lng = - 180, radiusMeters = 200\<rparr>) \<noteq> (0, 0) \<and>
   js_gt exactJS (calculateDistance exactJS (Some 0) (Some 0) (Some 0) (Some (- 180)))
     (Some (radiusMeters \<lparr>lat = 0, lng = - 180, radiusMeters = 200\<rparr>)) \<and>
   error (handleClockIn exactJS (Some (0, 0)) 1000 ''u''
     \<lparr>sessions = [], activeSession = None, status = CLOCKED_OUT, error = None,
      homeConfig = \<lparr>lat = 0, lng = - 180, radiusMeters = 200\<rparr>\<rparr>) = None \<and>
   activeSession (handleClockIn exactJS (Some (0, 0)) 1000 ''u''
     \<lparr>sessions = [], activeSession = None, status = CLOCKED_OUT, error = None,
      homeConfig = \<lparr>lat = 0, lng = - 180, radiusMeters = 200\<rparr>\<rparr>) =
     Some (newSess ''u'' 1000 (Some (0, 0)))"
  using far_away by (simp add: exact_gt exact_half_equator_west handleClockIn_def)

section \<open>Clock-in followed by clock-out\<close>

lemma Math_round_nearest:
  "60000 * Math_round (real_of_int d / 60000) - 30000 \<le> d \<and>
   d < 60000 * Math_round (real_of_int d / 60000) + 30000"
proof -
  define k where "k = Math_round (real_of_int d / 60000)"
  have "real_of_int k \<le> real_of_int d / 60000 + 1 / 2"
    "real_of_int d / 60000 + 1 / 2 < real_of_int k + 1"
    unfolding k_def Math_round_def by linarith+
  then have "real_of_int (60000 * k - 30000) \<le> real_of_int d"
    "real_of_int d < real_of_int (60000 * k + 30000)"
    by (simp_all add: field_simps)
  then show ?thesis
    unfolding k_def [symmetric] by (simp only: of_int_le_iff of_int_less_iff)
qed

lemma Math_round_nonneg_iff: "(0 \<le> Math_round (real_of_int d / 60000)) = (- 30000 \<le> d)"
proof -
  have "(0 \<le> Math_round (real_of_int d / 60000)) = (0 \<le> real_of_int d / 60000 + 1 / 2)"
    unfolding Math_round_def by (simp add: zero_le_floor)
  also have "\<dots> = (real_of_int (- 30000) \<le> real_of_int d)"
    by (simp add: field_simps) linarith
  also have "\<dots> = (- 30000 \<le> d)"
    by (simp only: of_int_le_iff)
  finally show ?thesis .
qed

text \<open>
  The duration in double arithmetic: for clock readings less than \<open>2^52\<close> ms (more
  than 140000 years) apart, the difference is exact, and the rounding of the quotient
  to a double does not move it across a half: \<open>Math.round\<close> gives the integer nearest
  to the exact quotient.
\<close>

lemma duration_double_exact:
  assumes "\<bar>n\<bar> < 2 ^ 52"
  shows "Math_round (fl (fl (real_of_int n) / 60000)) = Math_round (real_of_int n / 60000)"
proof -
  define x where "x = real_of_int n / 60000"
  define k where "k = Math_round x"
  from assms have "\<bar>n\<bar> \<le> 2 ^ 53" by simp
  then have i: "fl (real_of_int n) = real_of_int n"
    by (rule fl_of_int)
  have nb: "60000 * k - 30000 \<le> n" "n < 60000 * k + 30000"
    using Math_round_nearest [of n] unfolding k_def x_def by simp_all
  from assms have "real_of_int \<bar>n\<bar> < real_of_int (2 ^ 52)"
    by (simp only: of_int_less_iff)
  then have ax: "\<bar>x\<bar> < 2 ^ 52 / 60000"
    by (simp add: x_def)
  have "\<bar>fl x - x\<bar> \<le> \<bar>x\<bar> / 2 ^ 53"
    by (rule fl_near)
  also have "\<dots> < 2 ^ 52 / 60000 / 2 ^ 53"
    using ax by (simp add: divide_strict_right_mono)
  finally have "\<bar>fl x - x\<bar> < 1 / 120000"
    by simp
  then have err: "fl x - x < 1 / 120000" "x - fl x < 1 / 120000"
    by linarith+
  from nb(2) have "n \<le> 60000 * k + 29999" by simp
  then have "real_of_int n \<le> real_of_int (60000 * k + 29999)"
    by (simp only: of_int_le_iff)
  then have "x \<le> real_of_int k + 29999 / 60000"
    by (simp add: x_def field_simps)
  with err(1) have up: "fl x + 1 / 2 < real_of_int k + 1"
    by linarith
  have lo: "real_of_int k \<le> fl x + 1 / 2"
  proof (cases "n = 60000 * k - 30000")
    case True
    then have "real_of_int n = real_of_int (60000 * k - 30000)" by simp
    then have xh: "x = real_of_int (2 * k - 1) / 2"
      by (simp add: x_def field_simps)
    from True assms have "\<bar>2 * k - 1\<bar> \<le> 2 ^ 53" by simp
    then have "fl (real_of_int (2 * k - 1)) = real_of_int (2 * k - 1)"
      by (rule fl_of_int)
    then have "fl x = x"
      unfolding xh by (simp only: fl_half)
    then show ?thesis
      by (simp add: xh)
  next
    case False
    with nb(1) have "60000 * k - 29999 \<le> n" by simp
    then have "real_of_int (60000 * k - 29999) \<le> real_of_int n"
      by (simp only: of_int_le_iff)
    then have "real_of_int k - 29999 / 60000 \<le> x"
      by (simp add: x_def field_simps)
    with err(2) show ?thesis
      by linarith
  qed
  have "\<lfloor>fl x + 1 / 2\<rfloor> = k"
    using lo up by (intro floor_unique) simp_all
  then have "Math_round (fl x) = Math_round x"
    by (simp only: Math_round_def k_def)
  then show ?thesis
    by (simp only: i x_def)
qed

lemma clock_in_passed:
  assumes "error (handleClockIn J (Some loc) t0 uuid s) = None"
  shows "handleClockIn J (Some loc) t0 uuid s =
           s\<lparr>error := None, activeSession := Some (newSess uuid t0 (Some loc)),
             status := CLOCKED_IN\<rparr>"
  using assms by (simp add: handleClockIn_def Let_def split: if_splits)

text \<open>
  C4, as amended. A clock-in that goes through at the clock reading \<open>t0\<close>, directly
  followed by a clock-out at the reading \<open>t1\<close>, the two readings less than \<open>2^52\<close> ms
  apart, adds exactly one session to the list, at its head: the session of the
  clock-in, completed with \<open>endTime = t1\<close> and
  \<open>durationInMinutes = Math.round((t1 - t0) / 60000)\<close>, the integer nearest to the
  elapsed minutes. The active slot is empty afterwards. The duration is not clamped: it
  is 0 or more exactly when \<open>t1\<close> is not more than 30 seconds before \<open>t0\<close>, so always
  when the clock did not go back. This holds for the handlers of src/App.tsx, in the
  arithmetic of any platform, and for those of part_001.
\<close>

theorem clock_in_then_out:
  assumes "error (handleClockIn J (Some loc) t0 uuid s) = None"
    and "\<bar>t1 - t0\<bar> < 2 ^ 52"
  shows "sessions (handleClockOut t1 (handleClockIn J (Some loc) t0 uuid s)) =
           newSess uuid t0 (Some loc)
             \<lparr>endTime := Some t1,
              durationInMinutes := Some (Math_round (real_of_int (t1 - t0) / 60000))\<rparr> #
           sessions s \<and>
         activeSession (handleClockOut t1 (handleClockIn J (Some loc) t0 uuid s)) = None \<and>
         sessions (fst (handleClockOut_sync t1 (handleClockIn_sync (Some loc) t0 uuid (ss, st)))) =
           newSess uuid t0 (Some loc)
             \<lparr>endTime := Some t1,
              durationInMinutes := Some (Math_round (real_of_int (t1 - t0) / 60000))\<rparr> #
           sessions ss \<and>
         activeSession
           (fst (handleClockOut_sync t1 (handleClockIn_sync (Some loc) t0 uuid (ss, st)))) = None \<and>
         (0 \<le> Math_round (real_of_int (t1 - t0) / 60000)) = (t0 - 30000 \<le> t1) \<and>
         (t0 \<le> t1 \<longrightarrow> 0 \<le> Math_round (real_of_int (t1 - t0) / 60000)) \<and>
         60000 * Math_round (real_of_int (t1 - t0) / 60000) - 30000 \<le> t1 - t0 \<and>
         t1 - t0 < 60000 * Math_round (real_of_int (t1 - t0) / 60000) + 30000"
proof -
  note e = duration_double_exact [OF assms(2), unfolded of_int_diff]
  have a: "sessions (handleClockOut t1 (handleClockIn J (Some loc) t0 uuid s)) =
           newSess uuid t0 (Some loc)
             \<lparr>endTime := Some t1,
              durationInMinutes := Some (Math_round (real_of_int (t1 - t0) / 60000))\<rparr> #
           sessions s \<and>
         activeSession (handleClockOut t1 (handleClockIn J (Some loc) t0 uuid s)) = None"
    unfolding clock_in_passed [OF assms(1)]
    by (simp add: handleClockOut_def Let_def newSess_def e)
  have b: "sessions (fst (handleClockOut_sync t1 (handleClockIn_sync (Some loc) t0 uuid (ss, st)))) =
           newSess uuid t0 (Some loc)
             \<lparr>endTime := Some t1,
              durationInMinutes := Some (Math_round (real_of_int (t1 - t0) / 60000))\<rparr> #
           sessions ss \<and>
         activeSession
           (fst (handleClockOut_sync t1 (handleClockIn_sync (Some loc) t0 uuid (ss, st)))) = None"
    by (simp add: handleClockOut_sync_def handleClockIn_sync_def Let_def newSess_def e)
  have c: "(0 \<le> Math_round (real_of_int (t1 - t0) / 60000)) = (t0 - 30000 \<le> t1)"
    unfolding Math_round_nonneg_iff by linarith
  then have d: "t0 \<le> t1 \<longrightarrow> 0 \<le> Math_round (real_of_int (t1 - t0) / 60000)"
    by simp
  show ?thesis
    using a b c d Math_round_nearest [of "t1 - t0"] by (simp only: simp_thms)
qed

theorem clock_in_then_out_witness:
  "error (handleClockIn exactJS (Some (0, 0)) 1000 ''u'' (initialState defaultHomeConfig)) = None \<and>
   \<bar>5461000 - 1000 :: int\<bar> < 2 ^ 52 \<and>
   sessions (handleClockOut 5461000
      (handleClockIn exactJS (Some (0, 0)) 1000 ''u'' (initialState defaultHomeConfig))) =
     [newSess ''u'' 1000 (Some (0, 0))\<lparr>endTime := Some 5461000, durationInMinutes := Some 91\<rparr>] \<and>
   sessions (fst (handleClockOut_sync 5461000
      (handleClockIn_sync (Some (0, 0)) 1000 ''u''
         (initialSyncState defaultHomeConfig ''our-nanny-2024'', Map.empty)))) =
     [newSess ''u'' 1000 (Some (0, 0))\<lparr>endTime := Some 5461000, durationInMinutes := Some 91\<rparr>]"
proof -
  have e: "error (handleClockIn exactJS (Some (0, 0)) 1000 ''u'' (initialState defaultHomeConfig)) =
      None"
    by (simp add: handleClockIn_def initialState_def defaultHomeConfig_def)
  have b: "\<bar>5461000 - 1000 :: int\<bar> < 2 ^ 52"
    by simp
  have r: "Math_round (real_of_int (5461000 - 1000) / 60000) = 91"
    by (simp add: Math_round_def)
  have s: "sessions (initialState defaultHomeConfig) = []"
    "sessions (initialSyncState defaultHomeConfig ''our-nanny-2024'') = []"
    by (simp_all add: initialState_def initialSyncState_def)
  show ?thesis
    using clock_in_then_out [OF e b, of "initialSyncState defaultHomeConfig ''our-nanny-2024''"
        Map.empty] e
    unfolding r s by simp
qed

text \<open>
  C4 as stated fails where the clock reading of the clock-out is earlier than that of
  the clock-in: a clock-in at 200000 ms and a clock-out at 50000 ms produce a session
  with \<open>durationInMinutes = - 2\<close>, with the handlers of src/App.tsx (the default home
  configuration, so no distance is computed) and with those of part_001.
\<close>

theorem clock_in_then_out_counterexample:
  "map durationInMinutes
     (sessions (handleClockOut 50000
        (handleClockIn exactJS (Some (0, 0)) 200000 ''u'' (initialState defaultHomeConfig)))) =
     [Some (- 2)] \<and>
   map durationInMinutes
     (sessions (fst (handleClockOut_sync 50000
        (handleClockIn_sync (Some (0, 0)) 200000 ''u''
           (initialSyncState defaultHomeConfig ''our-nanny-2024'', Map.empty))))) = [Some (- 2)]"
proof -
  have r: "Math_round (fl (fl (- 150000) / 60000)) = - 2"
    using duration_double_exact [of "- 150000"] by (simp add: Math_round_def)
  have a: "handleClockIn exactJS (Some (0, 0)) 200000 ''u'' (initialState defaultHomeConfig) =
      (initialState defaultHomeConfig)
        \<lparr>activeSession := Some (newSess ''u'' 200000 (Some (0, 0))), status := CLOCKED_IN\<rparr>"
    by (simp add: handleClockIn_def initialState_def defaultHomeConfig_def)
  have b: "handleClockIn_sync (Some (0, 0)) 200000 ''u''
      (initialSyncState defaultHomeConfig ''our-nanny-2024'', Map.empty) =
      ((initialSyncState defaultHomeConfig ''our-nanny-2024'')
         \<lparr>activeSession := Some (newSess ''u'' 200000 (Some (0, 0))), status := CLOCKED_IN\<rparr>,
       saveToCloud ''our-nanny-2024'' [newSess ''u'' 200000 (Some (0, 0))]
         (Some (newSess ''u'' 200000 (Some (0, 0)))) Map.empty)"
    by (simp add: handleClockIn_sync_def Let_def initialSyncState_def)
  show ?thesis
    unfolding a b
    by (simp add: handleClockOut_def handleClockOut_sync_def Let_def newSess_def r
        initialState_def initialSyncState_def)
qed

section \<open>Clock-out without an active session\<close>

text \<open>
  C7. With the active slot empty, clock-out changes nothing: the state (the session list,
  the active slot, the status and the rest) and the store are as before, in src/App.tsx
  and in part_001.
\<close>

theorem clock_out_without_active_is_noop:
  assumes "activeSession s = None" and "activeSession ss = None"
  shows "step J (ClockOut now) (s, st) = Some (s, st) \<and>
         stepSync (SyncClockOut now) (ss, st) = Some (ss, st)"
  using assms by (simp add: handleClockOut_def handleClockOut_sync_def runEffects_def)

theorem clock_out_without_active_is_noop_witness:
  "activeSession (initialState defaultHomeConfig) = None \<and>
   activeSession (initialSyncState defaultHomeConfig ''our-nanny-2024'') = None \<and>
   step exactJS (ClockOut 1000) (initialState defaultHomeConfig, Map.empty) =
     Some (initialState defaultHomeConfig, Map.empty) \<and>
   stepSync (SyncClockOut 1000) (initialSyncState defaultHomeConfig ''our-nanny-2024'', Map.empty) =
     Some (initialSyncState defaultHomeConfig ''our-nanny-2024'', Map.empty)"
proof -
  have a: "activeSession (initialState defaultHomeConfig) = None"
    "activeSession (initialSyncState defaultHomeConfig ''our-nanny-2024'') = None"
    by (simp_all add: initialState_def initialSyncState_def)
  show ?thesis
    using a clock_out_without_active_is_noop [OF a, of exactJS 1000 Map.empty] by simp
qed

section \<open>Runs\<close>

text \<open>
  A run stops at the first load that fails. A property that every step preserves holds
  at the end of a run that started with it.
\<close>

lemma foldl_bind_None: "foldl (\<lambda>w e. Option.bind w (f e)) None evs = None"
  by (induction evs) simp_all

lemma foldl_bind_invariant:
  assumes "\<And>e w w'. P w \<Longrightarrow> f e w = Some w' \<Longrightarrow> P w'"
    and "P w0"
    and "foldl (\<lambda>w e. Option.bind w (f e)) (Some w0) evs = Some w"
  shows "P w"
  using assms(2,3)
proof (induction evs arbitrary: w0)
  case Nil
  then show ?case by simp
next
  case (Cons e evs)
  show ?case
  proof (cases "f e w0")
    case None
    with Cons.prems(2) show ?thesis
      by (simp add: foldl_bind_None)
  next
    case (Some w1)
    with Cons.prems(1) have "P w1"
      by (rule assms(1))
    moreover from Cons.prems(2) Some
    have "foldl (\<lambda>w e. Option.bind w (f e)) (Some w1) evs = Some w"
      by simp
    ultimately show ?thesis
      by (rule Cons.IH)
  qed
qed

lemma foldl_bind_defined:
  assumes "\<And>e w. P w \<Longrightarrow> \<exists>w'. f e w = Some w' \<and> P w'"
    and "P w0"
  shows "\<exists>w. foldl (\<lambda>w e. Option.bind w (f e)) (Some w0) evs = Some w \<and> P w"
  using assms(2)
proof (induction evs arbitrary: w0)
  case Nil
  then show ?case by simp
next
  case (Cons e evs)
  from assms(1) [OF Cons.prems, of e] obtain w1 where "f e w0 = Some w1" "P w1"
    by blast
  with Cons.IH [of w1] show ?case
    by simp
qed

section \<open>Status and the active slot\<close>

lemma statusMatches_handleClockIn:
  "statusMatches s \<Longrightarrow> statusMatches (handleClockIn J pos now uuid s)"
  by (simp add: statusMatches_def handleClockIn_def Let_def split: option.splits)

lemma statusMatches_handleClockOut: "statusMatches s \<Longrightarrow> statusMatches (handleClockOut now s)"
  by (simp add: statusMatches_def handleClockOut_def Let_def split: option.splits)

lemma storeWritten_runEffects: "storeWritten st \<Longrightarrow> storeWritten (runEffects old new st)"
  by (simp add: storeWritten_def runEffects_def persistSessions_def persistActive_def Let_def
      split: option.splits)

text \<open>On a store that the program wrote every load succeeds.\<close>

lemma mount_written:
  assumes "storeWritten st"
  shows "\<exists>w. mount st = Some w \<and> statusMatches (fst w) \<and> storeWritten (snd w)"
proof -
  from assms obtain h where h: "loadHomeConfig st = Some h"
    by (auto simp: storeWritten_def loadHomeConfig_def split: option.splits stored.splits)
  from assms obtain s1 where l: "loadEffect st (initialState h) = Some s1" "statusMatches s1"
    by (auto simp: storeWritten_def loadEffect_def statusMatches_def initialState_def
        split: option.splits stored.splits)
  have "storeWritten (persistActive (initialState h) (persistSessions (initialState h) st))"
    by (simp add: storeWritten_def persistActive_def persistSessions_def initialState_def)
  then have "storeWritten (runEffects (initialState h) s1
      (persistActive (initialState h) (persistSessions (initialState h) st)))"
    by (rule storeWritten_runEffects)
  with h l show ?thesis
    by (simp add: mount_def Let_def)
qed

lemma step_written:
  assumes "statusMatches (fst w) \<and> storeWritten (snd w)"
  shows "\<exists>w'. step J e w = Some w' \<and> statusMatches (fst w') \<and> storeWritten (snd w')"
proof (cases w)
  case (Pair s st)
  with assms mount_written [of st] show ?thesis
    by (cases e)
      (auto simp: Let_def statusMatches_handleClockIn statusMatches_handleClockOut
        storeWritten_runEffects)
qed

lemma run_written:
  assumes "storeWritten st"
  shows "\<exists>w. run J evs st = Some w \<and> statusMatches (fst w) \<and> storeWritten (snd w)"
proof -
  from mount_written [OF assms] obtain w0
    where m: "mount st = Some w0" "statusMatches (fst w0) \<and> storeWritten (snd w0)"
    by blast
  have "\<exists>w. foldl (\<lambda>w e. Option.bind w (step J e)) (Some w0) evs = Some w \<and>
      (statusMatches (fst w) \<and> storeWritten (snd w))"
    by (rule foldl_bind_defined [where P = "\<lambda>w. statusMatches (fst w) \<and> storeWritten (snd w)"])
      (use m(2) step_written in blast)+
  then show ?thesis
    by (simp add: run_def m(1))
qed

lemma not_idle_handleClockIn:
  "status s \<noteq> IDLE \<Longrightarrow> status (handleClockIn J pos now uuid s) \<noteq> IDLE"
  by (simp add: handleClockIn_def Let_def split: option.splits)

lemma not_idle_handleClockOut: "status s \<noteq> IDLE \<Longrightarrow> status (handleClockOut now s) \<noteq> IDLE"
  by (simp add: handleClockOut_def Let_def split: option.splits)

lemma not_idle_mount: "mount st = Some w \<Longrightarrow> status (fst w) \<noteq> IDLE"
  by (auto simp: mount_def loadEffect_def initialState_def Let_def
      split: option.splits stored.splits if_splits)

lemma not_idle_step:
  "status (fst w) \<noteq> IDLE \<Longrightarrow> step J e w = Some w' \<Longrightarrow> status (fst w') \<noteq> IDLE"
  by (cases e; cases w)
    (auto simp: Let_def not_idle_handleClockIn not_idle_handleClockOut not_idle_mount)

lemma not_idle_run:
  assumes "run J evs st = Some w"
  shows "status (fst w) \<noteq> IDLE"
proof (cases "mount st")
  case None
  with assms show ?thesis
    by (simp add: run_def foldl_bind_None)
next
  case (Some w0)
  then have "status (fst w0) \<noteq> IDLE"
    by (rule not_idle_mount)
  moreover from assms Some
  have "foldl (\<lambda>w e. Option.bind w (step J e)) (Some w0) evs = Some w"
    by (simp add: run_def)
  ultimately show ?thesis
    by (rule foldl_bind_invariant [where P = "\<lambda>w. status (fst w) \<noteq> IDLE" and f = "step J",
          rotated]) (rule not_idle_step)
qed

text \<open>
  C10, as amended. In src/App.tsx, on a store that holds what the program itself
  writes (the item of the active session, if present, is a session), mounting and any
  sequence of clock-ins, clock-outs and reloads after it succeed, and the status
  afterwards is \<open>CLOCKED_IN\<close> when the active slot holds a session and \<open>CLOCKED_OUT\<close>
  when it is empty. On every store, in every state that a run reaches the status is
  not \<open>IDLE\<close>.
\<close>

theorem status_follows_active_slot:
  "(storeWritten st \<longrightarrow>
      (\<exists>s st'. run J evs st = Some (s, st') \<and>
         status s = (if activeSession s = None then CLOCKED_OUT else CLOCKED_IN))) \<and>
   (\<forall>w. run J evs st = Some w \<longrightarrow> status (fst w) \<noteq> IDLE)"
proof -
  have "\<exists>s st'. run J evs st = Some (s, st') \<and>
      status s = (if activeSession s = None then CLOCKED_OUT else CLOCKED_IN)"
    if "storeWritten st"
    using run_written [OF that, of J evs] by (auto simp: statusMatches_def)
  then show ?thesis
    using not_idle_run by blast
qed

theorem status_follows_active_slot_witness:
  "storeWritten Map.empty \<and>
   map_option (status \<circ> fst) (run exactJS [ClockIn (Some (0, 0)) 1000 ''u''] Map.empty) =
     Some CLOCKED_IN \<and>
   map_option (status \<circ> fst)
     (run exactJS [ClockIn (Some (0, 0)) 1000 ''u'', ClockOut 5000] Map.empty) =
     Some CLOCKED_OUT"
proof -
  have w: "storeWritten Map.empty"
    by (simp add: storeWritten_def)
  have m: "mount Map.empty =
      Some (initialState defaultHomeConfig,
            [''nanny_sessions'' \<mapsto> SessionsJSON [], ''home_config'' \<mapsto> ConfigJSON defaultHomeConfig])"
    by (simp add: mount_def loadHomeConfig_def loadEffect_def Let_def runEffects_def
        persistSessions_def persistActive_def initialState_def)
  have a: "map_option (activeSession \<circ> fst)
      (run exactJS [ClockIn (Some (0, 0)) 1000 ''u''] Map.empty) =
      Some (Some (newSess ''u'' 1000 (Some (0, 0))))"
    by (simp add: run_def m handleClockIn_def initialState_def defaultHomeConfig_def Let_def)
  have b: "map_option (activeSession \<circ> fst)
      (run exactJS [ClockIn (Some (0, 0)) 1000 ''u'', ClockOut 5000] Map.empty) = Some None"
    by (simp add: run_def m handleClockIn_def handleClockOut_def initialState_def
        defaultHomeConfig_def Let_def)
  show ?thesis
    using w a b
      status_follows_active_slot [of Map.empty exactJS "[ClockIn (Some (0, 0)) 1000 ''u'']"]
      status_follows_active_slot
        [of Map.empty exactJS "[ClockIn (Some (0, 0)) 1000 ''u'', ClockOut 5000]"]
    by auto
qed

text \<open>
  C10 as stated fails after the initial load on a store whose item
  \<open>nanny_active_session\<close> is the text \<open>null\<close>: the text is truthy, so the load sets the
  status to \<open>CLOCKED_IN\<close>, and it parses to \<open>null\<close>, so the active slot stays empty.
\<close>

theorem status_follows_active_slot_counterexample:
  "map_option fst (run exactJS [] [''nanny_active_session'' \<mapsto> FalsyJSON]) =
     Some \<lparr>sessions = [], activeSession = None, status = CLOCKED_IN, error = None,
           homeConfig = defaultHomeConfig\<rparr>"
  by (simp add: run_def mount_def loadHomeConfig_def loadEffect_def initialState_def Let_def)
section \<open>Partitions of the store (part_001)\<close>

lemma keys_of_distinct_partitions:
  assumes "a \<noteq> b"
  shows "sessionsKey a \<noteq> sessionsKey b" "activeKey a \<noteq> activeKey b"
    "sessionsKey a \<noteq> activeKey b" "activeKey a \<noteq> sessionsKey b"
  using assms by (simp_all add: sessionsKey_def activeKey_def)

lemma saveToCloud_other_key:
  assumes "k \<noteq> sessionsKey a" "k \<noteq> activeKey a"
  shows "saveToCloud a data active st k = st k"
  using assms by (simp add: saveToCloud_def Let_def split: option.splits)

lemma loadSync_nothing_stored:
  assumes "st (sessionsKey (syncKey s)) = None" "st (activeKey (syncKey s)) = None"
  shows "loadSync st s = Some s"
  using assms by (simp add: loadSync_def)

text \<open>
  C8, as amended. For two distinct sync keys, saving a session list and an active
  session under the first leaves what is stored under the second as it was. On a
  store that held nothing, both items of the second key are absent afterwards, and an
  application that is mounted with the second key shows an empty list, no active
  session and the status \<open>CLOCKED_OUT\<close>. In a running application, the load that
  follows a change to a key under which nothing is stored changes neither the list nor
  the active session nor the status in memory.
\<close>

theorem partitions_do_not_leak:
  assumes "a \<noteq> b"
  shows "saveToCloud a data active st (sessionsKey b) = st (sessionsKey b) \<and>
         saveToCloud a data active st (activeKey b) = st (activeKey b) \<and>
         saveToCloud a data active Map.empty (sessionsKey b) = None \<and>
         saveToCloud a data active Map.empty (activeKey b) = None \<and>
         (b \<noteq> [] \<longrightarrow>
            mountSync ((saveToCloud a data active Map.empty)(''nanny_sync_key'' \<mapsto> PlainText b)) =
              Some (\<lparr>sessions = [], activeSession = None, status = CLOCKED_OUT, error = None,
                     homeConfig = defaultHomeConfig, syncKey = b\<rparr>,
                    (saveToCloud a data active Map.empty)(''nanny_sync_key'' \<mapsto> PlainText b))) \<and>
         (b \<noteq> [] \<and> syncKey s = a \<and> st (sessionsKey b) = None \<and> st (activeKey b) = None \<longrightarrow>
            changeKey (Some b) (s, st) =
              Some (s\<lparr>syncKey := b\<rparr>, st(''nanny_sync_key'' \<mapsto> PlainText b)))"
proof -
  let ?st = "(saveToCloud a data active Map.empty)(''nanny_sync_key'' \<mapsto> PlainText b)"
  have other: "saveToCloud a data active st' (sessionsKey b) = st' (sessionsKey b)"
    "saveToCloud a data active st' (activeKey b) = st' (activeKey b)" for st'
    using keys_of_distinct_partitions [OF assms]
    by (simp_all add: saveToCloud_other_key)
  have absent: "?st (sessionsKey b) = None" "?st (activeKey b) = None"
    by (simp_all add: other) (simp_all add: sessionsKey_def activeKey_def)
  have hc: "?st ''home_config'' = None"
    by (simp add: saveToCloud_other_key sessionsKey_def activeKey_def)
  have m: "mountSync ?st = Some (initialSyncState defaultHomeConfig b, ?st)" if "b \<noteq> []"
  proof -
    from that have k: "initialSyncKey ?st = Some b"
      by (simp add: initialSyncKey_def)
    have h: "loadHomeConfig ?st = Some defaultHomeConfig"
      by (simp only: loadHomeConfig_def hc option.case)
    have l: "loadSync ?st (initialSyncState defaultHomeConfig b) =
        Some (initialSyncState defaultHomeConfig b)"
      by (rule loadSync_nothing_stored) (simp_all only: initialSyncState_def absent select_convs)
    show ?thesis
      by (simp only: mountSync_def k h l option.case)
  qed
  have c: "changeKey (Some b) (s, st) = Some (s\<lparr>syncKey := b\<rparr>, st(''nanny_sync_key'' \<mapsto> PlainText b))"
    if "b \<noteq> []" "syncKey s = a" "st (sessionsKey b) = None" "st (activeKey b) = None"
  proof -
    have "loadSync (st(''nanny_sync_key'' \<mapsto> PlainText b)) (s\<lparr>syncKey := b\<rparr>) =
        Some (s\<lparr>syncKey := b\<rparr>)"
      using that(3,4)
      by (intro loadSync_nothing_stored) (simp_all add: sessionsKey_def activeKey_def)
    with that(1,2) assms show ?thesis
      by (simp add: changeKey_def Let_def)
  qed
  show ?thesis
    using m c by (simp add: other initialSyncState_def)
qed

theorem partitions_do_not_leak_witness:
  "''A'' \<noteq> ''B'' \<and> ''B'' \<noteq> [] \<and>
   syncKey \<lparr>sessions = [newSess ''u'' 0 None\<lparr>endTime := Some 60000, durationInMinutes := Some 1\<rparr>],
            activeSession = None, status = CLOCKED_OUT, error = None,
            homeConfig = defaultHomeConfig, syncKey = ''A''\<rparr> = ''A'' \<and>
   Map.empty (sessionsKey ''B'') = (None :: stored option) \<and>
   Map.empty (activeKey ''B'') = (None :: stored option) \<and>
   saveToCloud ''A'' [newSess ''u'' 0 None\<lparr>endTime := Some 60000, durationInMinutes := Some 1\<rparr>]
     (Some (newSess ''v'' 90000 None)) Map.empty (sessionsKey ''B'') = None \<and>
   saveToCloud ''A'' [newSess ''u'' 0 None\<lparr>endTime := Some 60000, durationInMinutes := Some 1\<rparr>]
     (Some (newSess ''v'' 90000 None)) Map.empty (activeKey ''B'') = None \<and>
   mountSync
     ((saveToCloud ''A''
         [newSess ''u'' 0 None\<lparr>endTime := Some 60000, durationInMinutes := Some 1\<rparr>]
         (Some (newSess ''v'' 90000 None)) Map.empty)
      (''nanny_sync_key'' \<mapsto> PlainText ''B'')) =
     Some (\<lparr>sessions = [], activeSession = None, status = CLOCKED_OUT, error = None,
            homeConfig = defaultHomeConfig, syncKey = ''B''\<rparr>,
           (saveToCloud ''A''
              [newSess ''u'' 0 None\<lparr>endTime := Some 60000, durationInMinutes := Some 1\<rparr>]
              (Some (newSess ''v'' 90000 None)) Map.empty)
           (''nanny_sync_key'' \<mapsto> PlainText ''B'')) \<and>
   changeKey (Some ''B'')
     (\<lparr>sessions = [newSess ''u'' 0 None\<lparr>endTime := Some 60000, durationInMinutes := Some 1\<rparr>],
       activeSession = None, status = CLOCKED_OUT, error = None,
       homeConfig = defaultHomeConfig, syncKey = ''A''\<rparr>, Map.empty) =
     Some (\<lparr>sessions = [newSess ''u'' 0 None\<lparr>endTime := Some 60000, durationInMinutes := Some 1\<rparr>],
            activeSession = None, status = CLOCKED_OUT, error = None,
            homeConfig = defaultHomeConfig, syncKey = ''B''\<rparr>,
           [''nanny_sync_key'' \<mapsto> PlainText ''B''])"
proof -
  have h: "''A'' \<noteq> ''B''" "''B'' \<noteq> []" by simp_all
  show ?thesis
    using h partitions_do_not_leak [OF h(1),
        where data = "[newSess ''u'' 0 None\<lparr>endTime := Some 60000, durationInMinutes := Some 1\<rparr>]"
          and active = "Some (newSess ''v'' 90000 None)" and st = Map.empty
          and s = "\<lparr>sessions = [newSess ''u'' 0 None\<lparr>endTime := Some 60000, durationInMinutes := Some 1\<rparr>],
            activeSession = None, status = CLOCKED_OUT, error = None,
            homeConfig = defaultHomeConfig, syncKey = ''A''\<rparr>"]
    by simp
qed

text \<open>
  C8 as stated fails for the load that follows a change of the key in a running
  application: the load effect has no branch for a key under which nothing is stored,
  so the list in memory stays. After a clock-in and a clock-out under the default key
  and a change to the key \<open>B\<close>, nothing is stored under \<open>B\<close>, and the list that was
  saved under the default key is still shown.
\<close>

theorem partitions_do_not_leak_counterexample:
  "''our-nanny-2024'' \<noteq> ''B'' \<and>
   runSync [SyncClockIn (Some (40, - 73)) 1000 ''u'', SyncClockOut 61000,
            ChangeKey (Some ''B'')] Map.empty =
     Some (\<lparr>sessions = [newSess ''u'' 1000 (Some (40, - 73))
                          \<lparr>endTime := Some 61000, durationInMinutes := Some 1\<rparr>],
            activeSession = None, status = CLOCKED_OUT, error = None,
            homeConfig = defaultHomeConfig, syncKey = ''B''\<rparr>,
           [''nanny_sessions_our-nanny-2024'' \<mapsto>
              SessionsJSON [newSess ''u'' 1000 (Some (40, - 73))
                             \<lparr>endTime := Some 61000, durationInMinutes := Some 1\<rparr>],
            ''nanny_sync_key'' \<mapsto> PlainText ''B''])"
proof -
  have m: "mountSync Map.empty = Some (initialSyncState defaultHomeConfig ''our-nanny-2024'', Map.empty)"
    by (simp add: mountSync_def initialSyncKey_def loadHomeConfig_def loadSync_def)
  have d: "Math_round (fl (fl 60000 / 60000)) = 1"
    using duration_double_exact [of 60000] by (simp add: Math_round_def)
  define c where "c = newSess ''u'' 1000 (Some (40, - 73))
        \<lparr>endTime := Some 61000, durationInMinutes := Some 1\<rparr>"
  define st2 where "st2 = saveToCloud ''our-nanny-2024'' [c] None
      (saveToCloud ''our-nanny-2024'' [newSess ''u'' 1000 (Some (40, - 73))]
         (Some (newSess ''u'' 1000 (Some (40, - 73)))) Map.empty)"
  have io: "handleClockOut_sync 61000
      (handleClockIn_sync (Some (40, - 73)) 1000 ''u''
         (initialSyncState defaultHomeConfig ''our-nanny-2024'', Map.empty)) =
      (\<lparr>sessions = [c], activeSession = None, status = CLOCKED_OUT, error = None,
        homeConfig = defaultHomeConfig, syncKey = ''our-nanny-2024''\<rparr>, st2)"
    using d
    by (simp add: handleClockIn_sync_def handleClockOut_sync_def Let_def initialSyncState_def
        c_def st2_def newSess_def)
  have s2: "st2 = [''nanny_sessions_our-nanny-2024'' \<mapsto> SessionsJSON [c]]"
    by (rule ext) (simp add: st2_def saveToCloud_def Let_def sessionsKey_def activeKey_def)
  have ck: "changeKey (Some ''B'')
      (\<lparr>sessions = [c], activeSession = None, status = CLOCKED_OUT, error = None,
        homeConfig = defaultHomeConfig, syncKey = ''our-nanny-2024''\<rparr>, st2) =
      Some (\<lparr>sessions = [c], activeSession = None, status = CLOCKED_OUT, error = None,
             homeConfig = defaultHomeConfig, syncKey = ''B''\<rparr>,
            st2(''nanny_sync_key'' \<mapsto> PlainText ''B''))"
    by (simp add: changeKey_def Let_def loadSync_def s2 sessionsKey_def activeKey_def)
  have "runSync [SyncClockIn (Some (40, - 73)) 1000 ''u'', SyncClockOut 61000,
            ChangeKey (Some ''B'')] Map.empty =
      Some (\<lparr>sessions = [c], activeSession = None, status = CLOCKED_OUT, error = None,
             homeConfig = defaultHomeConfig, syncKey = ''B''\<rparr>,
            st2(''nanny_sync_key'' \<mapsto> PlainText ''B''))"
    by (simp add: runSync_def m io ck)
  then show ?thesis
    unfolding c_def [symmetric] by (simp add: s2)
qed

section \<open>What the session list holds\<close>

text \<open>
  In src/App.tsx the list only ever receives completed sessions: from a store whose
  saved list holds completed sessions only (or from one without a saved list), every
  state that a run reaches has a list of completed sessions, in memory and in the store.
\<close>

lemma completed_runEffects:
  assumes "list_all completed (sessions new)" "storedListCompleted st"
  shows "storedListCompleted (runEffects old new st)"
  using assms
  by (simp add: runEffects_def persistSessions_def persistActive_def storedListCompleted_def
      Let_def split: option.splits)

lemma completed_handleClockIn:
  "sessions (handleClockIn J pos now uuid s) = sessions s"
  by (simp add: handleClockIn_def Let_def split: option.splits)

lemma completed_handleClockOut:
  "list_all completed (sessions s) \<Longrightarrow> list_all completed (sessions (handleClockOut now s))"
  by (simp add: handleClockOut_def Let_def completed_def split: option.splits)

lemma completed_loadEffect:
  assumes "storedListCompleted st" "loadEffect st (initialState h) = Some s1"
  shows "list_all completed (sessions s1)"
  using assms
  by (auto simp: loadEffect_def initialState_def storedListCompleted_def
      split: option.splits stored.splits if_splits)

lemma completed_mount:
  assumes "storedListCompleted st" "mount st = Some w"
  shows "list_all completed (sessions (fst w)) \<and> storedListCompleted (snd w)"
proof -
  from assms(2) obtain h s1 where h: "loadHomeConfig st = Some h"
    and l: "loadEffect st (initialState h) = Some s1"
    and w: "w = (s1, runEffects (initialState h) s1
          (persistActive (initialState h) (persistSessions (initialState h) st)))"
    by (auto simp: mount_def Let_def split: option.splits)
  have c: "list_all completed (sessions s1)"
    by (rule completed_loadEffect [OF assms(1) l])
  have "storedListCompleted (persistActive (initialState h) (persistSessions (initialState h) st))"
    by (simp add: persistActive_def persistSessions_def initialState_def storedListCompleted_def)
  with c show ?thesis
    by (simp add: w completed_runEffects)
qed

lemma completed_step:
  assumes "list_all completed (sessions (fst w)) \<and> storedListCompleted (snd w)"
    and "step J e w = Some w'"
  shows "list_all completed (sessions (fst w')) \<and> storedListCompleted (snd w')"
proof (cases w)
  case (Pair s st)
  show ?thesis
  proof (cases e)
    case (ClockIn pos now uuid)
    with Pair assms show ?thesis
      by (auto simp: Let_def completed_runEffects completed_handleClockIn)
  next
    case (ClockOut now)
    with Pair assms show ?thesis
      by (auto simp: Let_def completed_runEffects completed_handleClockOut)
  next
    case Reload
    with Pair assms completed_mount [of st w'] show ?thesis
      by simp
  qed
qed

lemma local_list_completed:
  assumes "storedListCompleted st" "run J evs st = Some w"
  shows "list_all completed (sessions (fst w)) \<and> storedListCompleted (snd w)"
proof (cases "mount st")
  case None
  with assms(2) show ?thesis
    by (simp add: run_def foldl_bind_None)
next
  case (Some w0)
  with assms(1) have "list_all completed (sessions (fst w0)) \<and> storedListCompleted (snd w0)"
    by (rule completed_mount)
  moreover from assms(2) Some
  have "foldl (\<lambda>w e. Option.bind w (step J e)) (Some w0) evs = Some w"
    by (simp add: run_def)
  ultimately show ?thesis
    by (rule foldl_bind_invariant
        [where P = "\<lambda>w. list_all completed (sessions (fst w)) \<and> storedListCompleted (snd w)"
          and f = "step J", rotated]) (rule completed_step)
qed

text \<open>
  C5. In part_001 the clock-in saves the new, still active session as the head of the
  stored list. After one clock-in on an empty store, the list stored under the default
  key holds a session without end time and duration. After a reload and a clock-out at
  61 seconds, the list in memory holds the completed session followed by its
  uncompleted copy.
\<close>

theorem sync_clock_in_stores_active_in_list:
  "runSync [SyncClockIn (Some (40, - 73)) 1000 ''u''] Map.empty =
     Some (\<lparr>sessions = [], activeSession = Some (newSess ''u'' 1000 (Some (40, - 73))),
            status = CLOCKED_IN, error = None, homeConfig = defaultHomeConfig,
            syncKey = ''our-nanny-2024''\<rparr>,
           [''nanny_sessions_our-nanny-2024'' \<mapsto>
              SessionsJSON [newSess ''u'' 1000 (Some (40, - 73))],
            ''nanny_active_our-nanny-2024'' \<mapsto>
              SessionJSON (newSess ''u'' 1000 (Some (40, - 73)))]) \<and>
   \<not> completed (newSess ''u'' 1000 (Some (40, - 73))) \<and>
   map_option (sessions \<circ> fst)
     (runSync [SyncClockIn (Some (40, - 73)) 1000 ''u'', SyncReload, SyncClockOut 61000]
        Map.empty) =
     Some [newSess ''u'' 1000 (Some (40, - 73))
             \<lparr>endTime := Some 61000, durationInMinutes := Some 1\<rparr>,
           newSess ''u'' 1000 (Some (40, - 73))]"
proof -
  have m: "mountSync Map.empty = Some (initialSyncState defaultHomeConfig ''our-nanny-2024'', Map.empty)"
    by (simp add: mountSync_def initialSyncKey_def loadHomeConfig_def loadSync_def)
  define n where "n = newSess ''u'' 1000 (Some (40, - 73))"
  define st1 where "st1 = [''nanny_sessions_our-nanny-2024'' \<mapsto> SessionsJSON [n],
      ''nanny_active_our-nanny-2024'' \<mapsto> SessionJSON n]"
  have i: "handleClockIn_sync (Some (40, - 73)) 1000 ''u''
      (initialSyncState defaultHomeConfig ''our-nanny-2024'', Map.empty) =
      (\<lparr>sessions = [], activeSession = Some n, status = CLOCKED_IN, error = None,
        homeConfig = defaultHomeConfig, syncKey = ''our-nanny-2024''\<rparr>, st1)"
    by (simp add: handleClockIn_sync_def Let_def n_def st1_def initialSyncState_def
        saveToCloud_def sessionsKey_def activeKey_def)
  have r: "mountSync st1 =
      Some (\<lparr>sessions = [n], activeSession = Some n, status = CLOCKED_IN, error = None,
             homeConfig = defaultHomeConfig, syncKey = ''our-nanny-2024''\<rparr>, st1)"
    by (simp add: mountSync_def initialSyncKey_def loadHomeConfig_def loadSync_def
        initialSyncState_def st1_def sessionsKey_def activeKey_def)
  have d: "Math_round (fl (fl 60000 / 60000)) = 1"
    using duration_double_exact [of 60000] by (simp add: Math_round_def)
  have o: "sessions (fst (handleClockOut_sync 61000
      (\<lparr>sessions = [n], activeSession = Some n, status = CLOCKED_IN, error = None,
        homeConfig = defaultHomeConfig, syncKey = ''our-nanny-2024''\<rparr>, st1))) =
      [n\<lparr>endTime := Some 61000, durationInMinutes := Some 1\<rparr>, n]"
    using d by (simp add: handleClockOut_sync_def Let_def n_def newSess_def)
  have c: "\<not> completed n"
    by (simp add: completed_def n_def newSess_def)
  have a: "runSync [SyncClockIn (Some (40, - 73)) 1000 ''u''] Map.empty =
      Some (\<lparr>sessions = [], activeSession = Some n, status = CLOCKED_IN, error = None,
             homeConfig = defaultHomeConfig, syncKey = ''our-nanny-2024''\<rparr>, st1)"
    by (simp add: runSync_def m i)
  have b: "map_option (sessions \<circ> fst)
     (runSync [SyncClockIn (Some (40, - 73)) 1000 ''u'', SyncReload, SyncClockOut 61000]
        Map.empty) =
     Some [n\<lparr>endTime := Some 61000, durationInMinutes := Some 1\<rparr>, n]"
    by (simp add: runSync_def m i r o)
  show ?thesis
    unfolding n_def [symmetric]
    using a b c by (simp add: st1_def)
qed
section \<open>The pay period window\<close>

lemma int_div_bounds:
  fixes c x :: int
  assumes "0 < c"
  shows "c * (x div c) \<le> x" and "x < c * (x div c) + c"
proof -
  have "x = c * (x div c) + x mod c" by simp
  moreover have "0 \<le> x mod c" "x mod c < c" using assms by simp_all
  ultimately show "c * (x div c) \<le> x" and "x < c * (x div c) + c" by linarith+
qed

lemma DayFromYear_shift:
  "DayFromYear (1970 + k) = 365 * k + (k + 1) div 4 - (k + 69) div 100 + (k + 369) div 400"
  by (simp add: DayFromYear_def algebra_simps)

lemma DayFromYear_lower: "400 * DayFromYear (1970 + k) \<le> 146097 * k + 691"
  using int_div_bounds [of 4 "k + 1"] int_div_bounds [of 100 "k + 69"]
    int_div_bounds [of 400 "k + 369"]
  unfolding DayFromYear_shift by simp

lemma DayFromYear_upper: "146097 * k - 545 \<le> 400 * DayFromYear (1970 + k)"
  using int_div_bounds [of 4 "k + 1"] int_div_bounds [of 100 "k + 69"]
    int_div_bounds [of 400 "k + 369"]
  unfolding DayFromYear_shift by simp

text \<open>
  \<open>YearFromTime\<close> is the year the standard asks for: its first day is not after the
  instant, and the first day of the next year is.
\<close>

lemma YearFromTime_bounds:
  "DayFromYear (YearFromTime t) \<le> Day t \<and> Day t < DayFromYear (YearFromTime t + 1)"
proof -
  define d where "d = Day t"
  define k where "k = (400 * d) div 146097"
  have kb: "146097 * k \<le> 400 * d" "400 * d < 146097 * k + 146097"
    using int_div_bounds [of 146097 "400 * d"] unfolding k_def by simp_all
  have y: "YearFromTime t =
      (if d < DayFromYear (1970 + k) then 1970 + (k - 1)
       else if DayFromYear (1970 + (k + 1)) \<le> d then 1970 + (k + 1) else 1970 + k)"
    by (simp add: YearFromTime_def Let_def d_def k_def add.assoc)
  have "400 * DayFromYear (1970 + (k - 1)) \<le> 400 * d"
    using DayFromYear_lower [of "k - 1"] kb by (simp add: algebra_simps)
  then have lo: "DayFromYear (1970 + (k - 1)) \<le> d"
    by simp
  have "400 * d < 400 * DayFromYear (1970 + (k + 2))"
    using DayFromYear_upper [of "k + 2"] kb by (simp add: algebra_simps)
  then have hi: "d < DayFromYear (1970 + (k + 2))"
    by simp
  have s: "1970 + (k - 1) + 1 = 1970 + k" "1970 + (k + 1) + 1 = 1970 + (k + 2)"
    "1970 + k + 1 = 1970 + (k + 1)"
    by simp_all
  show ?thesis
    unfolding d_def [symmetric] y using lo hi by (simp add: s)
qed
lemma setDate_getDate_shift: "setDate tza t (getDate tza t + k) = t + k * msPerDay"
proof -
  define lt where "lt = t + tza"
  have "MakeDay (YearFromTime lt) (MonthFromTime lt) (DateFromTime lt + k) = Day lt + k"
    by (simp add: MakeDay_def DateFromTime_def DayWithinYear_def InLeapYear_def)
  moreover have "MakeDate (Day lt + k) (TimeWithinDay lt) = lt + k * msPerDay"
    by (simp add: MakeDate_def Day_def TimeWithinDay_def algebra_simps)
  ultimately show ?thesis
    by (simp add: setDate_def getDate_def Let_def lt_def [symmetric]) (simp add: lt_def)
qed

text \<open>
  When the three readings of the clock are the same instant, the window of the source
  starts where the specification says: \<open>14 (periodOffset + 1)\<close> days before now.
\<close>

lemma startOfPeriod_as_specified:
  "setDate tza now (getDate tza now - 14 * (periodOffset + 1)) =
   fst (period_window_spec now periodOffset)"
proof -
  have "getDate tza now - 14 * (periodOffset + 1) = getDate tza now + - (14 * (periodOffset + 1))"
    by simp
  then have "setDate tza now (getDate tza now - 14 * (periodOffset + 1)) =
      now + - (14 * (periodOffset + 1)) * msPerDay"
    by (simp only: setDate_getDate_shift)
  then show ?thesis
    by (simp add: period_window_spec_def Let_def algebra_simps)
qed
text \<open>
  The end of the window is as specified when its start falls in the month of now; the
  source takes the month of the end from now and only the day of the month from the
  start.
\<close>

lemma endOfPeriod_same_month:
  assumes "start = now - k * msPerDay"
    and "YearFromTime (start + tza) = YearFromTime (now + tza)"
    and "MonthFromTime (start + tza) = MonthFromTime (now + tza)"
  shows "setDate tza now (getDate tza start + 14) = start + 14 * msPerDay"
proof -
  have "TimeWithinDay (now + tza) = TimeWithinDay (start + tza)"
  proof -
    have "now + tza = start + tza + k * msPerDay"
      using assms(1) by simp
    then show ?thesis
      by (simp only: TimeWithinDay_def mod_mult_self1)
  qed
  then have "setDate tza now (getDate tza start + 14) = setDate tza start (getDate tza start + 14)"
    using assms(2,3) by (simp add: setDate_def Let_def)
  then show ?thesis
    by (simp add: setDate_getDate_shift)
qed

lemma date_2024_03_20:
  "YearFromTime 1710936000000 = 2024" "MonthFromTime 1710936000000 = 2"
  "DateFromTime 1710936000000 = 20"
proof -
  show y: "YearFromTime 1710936000000 = 2024"
    by (simp add: YearFromTime_def Day_def msPerDay_def DayFromYear_def)
  show m: "MonthFromTime 1710936000000 = 2"
    by (simp add: MonthFromTime_def DayWithinYear_def InLeapYear_def y DaysInYear_def Day_def
        msPerDay_def DayFromYear_def)
  show "DateFromTime 1710936000000 = 20"
    by (simp add: DateFromTime_def m DayWithinYear_def InLeapYear_def y DaysInYear_def Day_def
        msPerDay_def DayFromYear_def monthStart_def)
qed

lemma date_2024_02_21:
  "YearFromTime 1708516800000 = 2024" "MonthFromTime 1708516800000 = 1"
  "DateFromTime 1708516800000 = 21"
proof -
  show y: "YearFromTime 1708516800000 = 2024"
    by (simp add: YearFromTime_def Day_def msPerDay_def DayFromYear_def)
  show m: "MonthFromTime 1708516800000 = 1"
    by (simp add: MonthFromTime_def DayWithinYear_def InLeapYear_def y DaysInYear_def Day_def
        msPerDay_def DayFromYear_def)
  show "DateFromTime 1708516800000 = 21"
    by (simp add: DateFromTime_def m DayWithinYear_def InLeapYear_def y DaysInYear_def Day_def
        msPerDay_def DayFromYear_def monthStart_def)
qed

lemma setDate_2024_03:
  "setDate 0 1710936000000 (- 8) = 1708516800000"
  "setDate 0 1710936000000 35 = 1712232000000"
  by (simp_all add: setDate_def date_2024_03_20 MakeDay_def MakeDate_def TimeWithinDay_def
      DaysInYear_def DayFromYear_def msPerDay_def monthStart_def)

text \<open>
  C2. On 20 March 2024, 12:00 UTC, with \<open>periodOffset = 1\<close>, the window of the
  specification runs from 21 February 12:00 to 6 March 12:00. The source starts its
  window on 21 February 12:00 too, but ends it on 4 April 12:00: it sets the day of the
  month of the current month to 21 + 14. A session that started on 15 March 09:00 is
  therefore kept by the filter, although it lies outside the specified window.
\<close>

theorem previous_period_window_too_long:
  "setDate 0 1710936000000 (getDate 0 1710936000000 - 14 * (1 + 1)) = 1708516800000 \<and>
   setDate 0 1710936000000 (getDate 0 1708516800000 + 14) = 1712232000000 \<and>
   period_window_spec 1710936000000 1 = (1708516800000, 1709726400000) \<and>
   filteredSessions 0 1710936000000 1710936000000 1710936000000
     [newSess ''u'' 1710493200000 None] 1 = [newSess ''u'' 1710493200000 None] \<and>
   filteredSessions_spec 1710936000000 [newSess ''u'' 1710493200000 None] 1 = []"
proof -
  have g: "getDate 0 1710936000000 = 20" "getDate 0 1708516800000 = 21"
    by (simp_all add: getDate_def date_2024_03_20 date_2024_02_21)
  have w: "period_window_spec 1710936000000 1 = (1708516800000, 1709726400000)"
    by (simp add: period_window_spec_def msPerDay_def)
  have s: "startTime (newSess ''u'' 1710493200000 None) = 1710493200000"
    by (simp add: newSess_def)
  show ?thesis
    by (simp add: filteredSessions_def filteredSessions_spec_def Let_def g w s setDate_2024_03)
qed

end
